theory Spec2Isabelle
  imports Complex_Main
begin

section \<open>Numeric samples: IEEE 754 binary64\<close>

text \<open>
  The samples of a numeric pandas Series are 64-bit floats.  A value is a NaN (pandas'
  marker for a missing entry as well), an infinity or a zero with its sign bit
  (\<open>True\<close> is negative), or a finite non-zero number, kept as the rational it denotes.
  Every arithmetic operation computes the exact rational result and rounds it to the
  nearest representable number, ties to even, with gradual underflow and overflow to
  infinity.
\<close>

datatype f64 = NaN | Inf bool | Zero bool | Fin rat

fun bit_length :: "nat \<Rightarrow> nat" where
  "bit_length n = (if n = 0 then 0 else Suc (bit_length (n div 2)))"

declare bit_length.simps [simp del]

definition ilog2 :: "rat \<Rightarrow> int" where
  \<comment> \<open>the integer part of the binary logarithm of a positive rational\<close>
  "ilog2 a = (if 1 \<le> a then int (bit_length (nat \<lfloor>a\<rfloor>)) - 1
              else - int (bit_length (nat (\<lceil>1 / a\<rceil> - 1))))"

definition pow2 :: "int \<Rightarrow> rat" where
  "pow2 e = (if 0 \<le> e then 2 ^ nat e else 1 / 2 ^ nat (- e))"

definition round_half_even :: "rat \<Rightarrow> int" where
  "round_half_even x =
     (let f = \<lfloor>x\<rfloor>; r = x - of_int f
      in if r < 1 / 2 then f else if 1 / 2 < r then f + 1
         else if even f then f else f + 1)"

definition round64 :: "rat \<Rightarrow> f64" where
  \<comment> \<open>53 significant bits, least exponent \<open>-1022\<close>, overflow from \<open>2 ^ 1024\<close> on\<close>
  "round64 q =
     (if q = 0 then Zero False
      else let a = \<bar>q\<bar>;
               u = pow2 (max (ilog2 a) (- 1022) - 52);
               m = round_half_even (a / u)
           in if m = 0 then Zero (q < 0)
              else if pow2 1024 \<le> of_int m * u then Inf (q < 0)
              else Fin (sgn q * of_int m * u))"

fun sign_bit :: "f64 \<Rightarrow> bool" where
  "sign_bit NaN = False"
| "sign_bit (Inf s) = s"
| "sign_bit (Zero s) = s"
| "sign_bit (Fin q) = (q < 0)"

fun fneg :: "f64 \<Rightarrow> f64" where
  "fneg NaN = NaN"
| "fneg (Inf s) = Inf (\<not> s)"
| "fneg (Zero s) = Zero (\<not> s)"
| "fneg (Fin q) = Fin (- q)"

fun fmul :: "f64 \<Rightarrow> f64 \<Rightarrow> f64" where
  "fmul NaN y = NaN"
| "fmul x NaN = NaN"
| "fmul (Inf s) (Zero t) = NaN"
| "fmul (Zero s) (Inf t) = NaN"
| "fmul (Inf s) y = Inf (s \<noteq> sign_bit y)"
| "fmul x (Inf t) = Inf (sign_bit x \<noteq> t)"
| "fmul (Zero s) y = Zero (s \<noteq> sign_bit y)"
| "fmul x (Zero t) = Zero (sign_bit x \<noteq> t)"
| "fmul (Fin a) (Fin b) = round64 (a * b)"

fun fdiv :: "f64 \<Rightarrow> f64 \<Rightarrow> f64" where
  "fdiv NaN y = NaN"
| "fdiv x NaN = NaN"
| "fdiv (Inf s) (Inf t) = NaN"
| "fdiv (Zero s) (Zero t) = NaN"
| "fdiv (Inf s) y = Inf (s \<noteq> sign_bit y)"
| "fdiv x (Inf t) = Zero (sign_bit x \<noteq> t)"
| "fdiv (Zero s) y = Zero (s \<noteq> sign_bit y)"
| "fdiv x (Zero t) = Inf (sign_bit x \<noteq> t)"
| "fdiv (Fin a) (Fin b) = round64 (a / b)"

fun fadd :: "f64 \<Rightarrow> f64 \<Rightarrow> f64" where
  "fadd NaN y = NaN"
| "fadd x NaN = NaN"
| "fadd (Inf s) (Inf t) = (if s = t then Inf s else NaN)"
| "fadd (Inf s) y = Inf s"
| "fadd x (Inf t) = Inf t"
| "fadd (Zero s) (Zero t) = Zero (s \<and> t)"
| "fadd (Zero s) y = y"
| "fadd x (Zero t) = x"
| "fadd (Fin a) (Fin b) = round64 (a + b)"

text \<open>
  The operators \<open>+\<close>, \<open>-\<close>, \<open>*\<close> and \<open>/\<close> on \<open>f64\<close> are the rounded operations, so
  that the model keeps the source's expressions.  No algebraic law comes with them.
\<close>

instantiation f64 :: "{plus, minus, uminus, times, inverse}"
begin

definition plus_f64 :: "f64 \<Rightarrow> f64 \<Rightarrow> f64" where
  "plus_f64 x y = fadd x y"

definition uminus_f64 :: "f64 \<Rightarrow> f64" where
  "uminus_f64 x = fneg x"

definition minus_f64 :: "f64 \<Rightarrow> f64 \<Rightarrow> f64" where
  "minus_f64 x y = fadd x (fneg y)"

definition times_f64 :: "f64 \<Rightarrow> f64 \<Rightarrow> f64" where
  "times_f64 x y = fmul x y"

definition divide_f64 :: "f64 \<Rightarrow> f64 \<Rightarrow> f64" where
  "divide_f64 x y = fdiv x y"

definition inverse_f64 :: "f64 \<Rightarrow> f64" where
  "inverse_f64 x = fdiv (Fin 1) x"

instance ..

end

section \<open>Time series\<close>

text \<open>
  A timestamp is the integer pandas stores for it (nanoseconds since the epoch).  A
  Series is the list of its rows, label and value, in index order; the model is of
  Series whose index holds no timestamp twice.
\<close>

type_synonym timestamp = int

type_synonym series = "(timestamp \<times> f64) list"

definition index :: "series \<Rightarrow> timestamp list" where
  "index s = map fst s"

definition value_at :: "series \<Rightarrow> timestamp \<Rightarrow> f64" where
  \<comment> \<open>the value at a label after reindexing: NaN where the label is missing\<close>
  "value_at s t = (case map_of s t of None \<Rightarrow> NaN | Some v \<Rightarrow> v)"

definition scalar_mul :: "f64 \<Rightarrow> series \<Rightarrow> series" where
  "scalar_mul c s = map (\<lambda>(t, x). (t, c * x)) s"

definition div_scalar :: "series \<Rightarrow> f64 \<Rightarrow> series" where
  "div_scalar s c = map (\<lambda>(t, x). (t, x / c)) s"

definition sub_scalar :: "series \<Rightarrow> f64 \<Rightarrow> series" where
  "sub_scalar s c = map (\<lambda>(t, x). (t, x - c)) s"

definition scalar_add :: "f64 \<Rightarrow> series \<Rightarrow> series" where
  "scalar_add c s = map (\<lambda>(t, x). (t, c + x)) s"

definition align_op :: "(f64 \<Rightarrow> f64 \<Rightarrow> f64) \<Rightarrow> series \<Rightarrow> series \<Rightarrow> series" where
  \<comment> \<open>a binary operator on two Series: row by row when the indexes are equal, otherwise
      both are reindexed to the sorted union of the labels first\<close>
  "align_op f a b =
     (if index a = index b then map (\<lambda>((t, x), (_, y)). (t, f x y)) (zip a b)
      else map (\<lambda>t. (t, f (value_at a t) (value_at b t))) (sort (remdups (index a @ index b))))"

definition series_mul :: "series \<Rightarrow> series \<Rightarrow> series" where
  "series_mul a b = align_op (\<lambda>x y. x * y) a b"

definition series_div :: "series \<Rightarrow> series \<Rightarrow> series" where
  "series_div a b = align_op (\<lambda>x y. x / y) a b"

section \<open>The PVWatts module model\<close>

definition pvwatts_dc_power ::
  "series \<Rightarrow> f64 \<Rightarrow> series option \<Rightarrow> f64 \<Rightarrow> f64 \<Rightarrow> f64 option \<Rightarrow> series" where
  "pvwatts_dc_power poa_global P_stc T_cell G_stc T_stc gamma_pdc =
     (let dc_power = div_scalar (scalar_mul P_stc poa_global) G_stc
      in case T_cell of
           None \<Rightarrow> dc_power
         | Some tc \<Rightarrow>
             (case gamma_pdc of
                None \<Rightarrow> dc_power
              | Some g \<Rightarrow>
                  (let temperature_factor = scalar_add (Fin 1) (scalar_mul g (sub_scalar tc T_stc))
                   in series_mul dc_power temperature_factor)))"

section \<open>Errors and the pandas operations\<close>

text \<open>
  A call either returns or raises; the exception classes the code can meet are the
  constructors of \<open>py_error\<close>.
\<close>

datatype py_error = TypeError | ValueError | AttributeError | KeyError string

text \<open>
  The measured energy is a Series whose index carries the attribute \<open>freq\<close>: a frequency,
  or \<open>None\<close>.  The two pandas operations on frequencies that the normalization calls,
  \<open>pd.infer_freq(index)\<close> and \<open>series.resample(freq).sum()\<close>, are not part of this
  program; the model takes them as the fields of a record and holds for any pandas.
  \<open>infer_freq\<close> returns a frequency, returns \<open>None\<close> when it finds none, or raises;
  \<open>resample(freq).sum()\<close> returns the resampled series or raises (pandas refuses some
  frequencies).
\<close>

record 'f energy_series =
  freq :: "'f option"
  rows :: series

record 'f pandas =
  infer_freq :: "timestamp list \<Rightarrow> py_error + 'f option"
  resample_sum :: "'f \<Rightarrow> series \<Rightarrow> py_error + series"

section \<open>Normalization with PVWatts\<close>

text \<open>
  The dictionary \<open>pvwatts_kws\<close> is unpacked into the keyword arguments of
  \<open>pvwatts_dc_power\<close>: a key may be absent (\<open>None\<close>), the two without a default must be
  there, and the defaults are \<open>G_stc = 1000\<close> and \<open>T_stc = 25\<close>.
\<close>

record pvwatts_kws =
  kw_poa_global :: "series option"
  kw_P_stc :: "f64 option"
  kw_T_cell :: "series option"
  kw_G_stc :: "f64 option"
  kw_T_stc :: "f64 option"
  kw_gamma_pdc :: "f64 option"

definition call_pvwatts_dc_power :: "pvwatts_kws \<Rightarrow> py_error + series" where
  "call_pvwatts_dc_power kws =
     (case kw_poa_global kws of
        None \<Rightarrow> Inl TypeError
      | Some poa_global \<Rightarrow>
          (case kw_P_stc kws of
             None \<Rightarrow> Inl TypeError
           | Some P_stc \<Rightarrow>
               Inr (pvwatts_dc_power poa_global P_stc (kw_T_cell kws)
                      (case kw_G_stc kws of None \<Rightarrow> Fin 1000 | Some g \<Rightarrow> g)
                      (case kw_T_stc kws of None \<Rightarrow> Fin 25 | Some t \<Rightarrow> t)
                      (kw_gamma_pdc kws))))"

text \<open>
  \<open>resample\<close> with no frequency (\<open>None\<close> from \<open>infer_freq\<close>) raises in pandas, an
  \<open>AttributeError\<close> on the missing frequency; it is reached after the DC power has been
  computed.
\<close>

definition normalize_with_pvwatts ::
  "'f pandas \<Rightarrow> 'f energy_series \<Rightarrow> pvwatts_kws \<Rightarrow> py_error + series" where
  "normalize_with_pvwatts pd energy pvwatts_kws =
     (case (case freq energy of
              None \<Rightarrow> infer_freq pd (index (rows energy))
            | Some f \<Rightarrow> Inr (Some f)) of
        Inl e \<Rightarrow> Inl e
      | Inr fr \<Rightarrow>
          (case call_pvwatts_dc_power pvwatts_kws of
             Inl e \<Rightarrow> Inl e
           | Inr dc_power \<Rightarrow>
               (case fr of
                  None \<Rightarrow> Inl AttributeError
                | Some f \<Rightarrow>
                    (case resample_sum pd f dc_power of
                       Inl e \<Rightarrow> Inl e
                     | Inr energy_dc \<Rightarrow> Inr (series_div (rows energy) energy_dc)))))"

section \<open>The SAPM model\<close>

text \<open>
  A DataFrame is an index and its columns by name; reading a missing column raises
  \<open>KeyError\<close>.  The PV system is an object of pvlib: the model knows its methods only as
  calls, which may raise and may change some state \<open>'s\<close> of their own, and threads that
  state through the calls in the order the program makes them.
\<close>

record frame =
  frame_index :: "timestamp list"
  columns :: "string \<Rightarrow> series option"

definition getitem :: "frame \<Rightarrow> string \<Rightarrow> py_error + series" where
  "getitem df c = (case columns df c of None \<Rightarrow> Inl (KeyError c) | Some s \<Rightarrow> Inr s)"

type_synonym ('s, 'a) call = "'s \<Rightarrow> (py_error + 'a) \<times> 's"

definition and_then :: "('s, 'a) call \<Rightarrow> ('a \<Rightarrow> ('s, 'b) call) \<Rightarrow> ('s, 'b) call" where
  "and_then m k s = (case m s of (Inl e, s') \<Rightarrow> (Inl e, s') | (Inr x, s') \<Rightarrow> k x s')"

definition result :: "py_error + 'a \<Rightarrow> ('s, 'a) call" where
  "result r s = (r, s)"

record ('s, 'm) pvsystem =
  get_solarposition :: "timestamp list \<Rightarrow> ('s, frame) call"
  get_poa_global :: "series \<Rightarrow> series \<Rightarrow> series \<Rightarrow> series \<Rightarrow> series \<Rightarrow> ('s, frame) call"
  get_aoi :: "series \<Rightarrow> series \<Rightarrow> ('s, series) call"
  get_airmass :: "frame \<Rightarrow> string \<Rightarrow> ('s, frame) call"
  module :: "'m"
  sapm_celltemp :: "series \<Rightarrow> series \<Rightarrow> series \<Rightarrow> ('s, frame) call"
  pvwatts_dc :: "series \<Rightarrow> series \<Rightarrow> ('s, series) call"

record ('s, 'm) pvlib =
  sapm_effective_poa_global ::
    "series \<Rightarrow> series \<Rightarrow> series \<Rightarrow> series \<Rightarrow> 'm \<Rightarrow> int \<Rightarrow> ('s, series) call"

definition sapm_dc_power ::
  "('s, 'm) pvlib \<Rightarrow> ('s, 'm) pvsystem \<Rightarrow> frame \<Rightarrow> ('s, series) call" where
  "sapm_dc_power pvlib pvlib_pvsystem poa_global =
     and_then (get_solarposition pvlib_pvsystem (frame_index poa_global)) (\<lambda>solar_position.
     and_then (result (getitem solar_position ''zenith'')) (\<lambda>zenith.
     and_then (result (getitem solar_position ''azimuth'')) (\<lambda>azimuth.
     and_then (result (getitem poa_global ''DNI'')) (\<lambda>dni.
     and_then (result (getitem poa_global ''GHI'')) (\<lambda>ghi.
     and_then (result (getitem poa_global ''DHI'')) (\<lambda>dhi.
     and_then (get_poa_global pvlib_pvsystem zenith azimuth dni ghi dhi) (\<lambda>total_irradiance.
     and_then (result (getitem solar_position ''zenith'')) (\<lambda>zenith'.
     and_then (result (getitem solar_position ''azimuth'')) (\<lambda>azimuth'.
     and_then (get_aoi pvlib_pvsystem zenith' azimuth') (\<lambda>aoi.
     and_then (get_airmass pvlib_pvsystem solar_position ''kastenyoung1989'') (\<lambda>airmass.
     and_then (result (getitem airmass ''airmass_absolute'')) (\<lambda>airmass_absolute.
     and_then (result (getitem total_irradiance ''poa_direct'')) (\<lambda>poa_direct.
     and_then (result (getitem total_irradiance ''poa_diffuse'')) (\<lambda>poa_diffuse.
     and_then (sapm_effective_poa_global pvlib poa_direct poa_diffuse airmass_absolute aoi
                 (module pvlib_pvsystem) 1) (\<lambda>effective_poa.
     and_then (result (getitem total_irradiance ''poa_global'')) (\<lambda>irrad.
     and_then (result (getitem poa_global ''Wind Speed'')) (\<lambda>wind.
     and_then (result (getitem poa_global ''Temperature'')) (\<lambda>temp.
     and_then (sapm_celltemp pvlib_pvsystem irrad wind temp) (\<lambda>temp_cell.
     and_then (result (getitem temp_cell ''temp_cell'')) (\<lambda>temp_cell'.
     pvwatts_dc pvlib_pvsystem effective_poa temp_cell'))))))))))))))))))))"

section \<open>Normalization with SAPM\<close>

record ('s, 'm) sapm_kws =
  kw_pvlib_pvsystem :: "('s, 'm) pvsystem option"
  kw_poa_frame :: "frame option"

definition call_sapm_dc_power ::
  "('s, 'm) pvlib \<Rightarrow> ('s, 'm) sapm_kws \<Rightarrow> ('s, series) call" where
  "call_sapm_dc_power pvlib kws =
     (case kw_pvlib_pvsystem kws of
        None \<Rightarrow> result (Inl TypeError)
      | Some pvlib_pvsystem \<Rightarrow>
          (case kw_poa_frame kws of
             None \<Rightarrow> result (Inl TypeError)
           | Some poa_global \<Rightarrow> sapm_dc_power pvlib pvlib_pvsystem poa_global))"

definition normalize_with_sapm ::
  "'f pandas \<Rightarrow> ('s, 'm) pvlib \<Rightarrow> 'f energy_series \<Rightarrow> ('s, 'm) sapm_kws \<Rightarrow> ('s, series) call" where
  "normalize_with_sapm pd pvlib energy sapm_kws =
     and_then (result (case freq energy of
                         None \<Rightarrow> infer_freq pd (index (rows energy))
                       | Some f \<Rightarrow> Inr (Some f))) (\<lambda>fr.
     and_then (call_sapm_dc_power pvlib sapm_kws) (\<lambda>dc_power.
     result (case fr of
               None \<Rightarrow> Inl AttributeError
             | Some f \<Rightarrow>
                 (case resample_sum pd f dc_power of
                    Inl e \<Rightarrow> Inl e
                  | Inr energy_dc \<Rightarrow> Inr (series_div (rows energy) energy_dc)))))"

section \<open>Auxiliary notions for the statements\<close>

text \<open>
  The frequency both normalization functions resample with: the first four lines of
  their bodies, as a function of the energy series.
\<close>

definition resolve_freq :: "'f pandas \<Rightarrow> 'f energy_series \<Rightarrow> py_error + 'f option" where
  "resolve_freq pd energy =
     (case freq energy of
        None \<Rightarrow> infer_freq pd (index (rows energy))
      | Some f \<Rightarrow> Inr (Some f))"

text \<open>
  A finite float is a zero or a finite non-zero number.  For scalars \<open>k\<close>, \<open>p\<close> and \<open>g\<close>,
  a sample is exact when it is a zero, or finite and the products \<open>k * a\<close>,
  \<open>p * (k * a)\<close>, \<open>p * a\<close> and the quotient \<open>p * a / g\<close> need no rounding.
\<close>

fun is_finite :: "f64 \<Rightarrow> bool" where
  "is_finite NaN = False"
| "is_finite (Inf s) = False"
| "is_finite (Zero s) = True"
| "is_finite (Fin q) = True"

fun exact_sample :: "rat \<Rightarrow> rat \<Rightarrow> rat \<Rightarrow> f64 \<Rightarrow> bool" where
  "exact_sample k p g (Zero s) = True"
| "exact_sample k p g (Fin a) =
     (round64 (k * a) = Fin (k * a) \<and> round64 (p * (k * a)) = Fin (p * (k * a))
      \<and> round64 (p * a) = Fin (p * a) \<and> round64 (p * a / g) = Fin (p * a / g))"
| "exact_sample k p g x = False"

section \<open>A pandas for fixed-period frequencies\<close>

text \<open>
  For closed examples the two pandas operations are needed on concrete data.  This
  instance takes a frequency to be a fixed period in nanoseconds (pandas' \<open>'D'\<close>, \<open>'H'\<close>,
  \<open>'T'\<close>, \<dots>).  \<open>infer_freq\<close> raises \<open>ValueError\<close> on fewer than three timestamps, gives
  \<open>None\<close> for an index that is neither strictly increasing nor strictly decreasing, and
  the common spacing when there is one (negative for a decreasing index, pandas'
  \<open>'-1D'\<close>); for other spacings it gives \<open>None\<close> here (pandas goes on to look for a
  calendar frequency, which this instance has not).  \<open>resample(freq).sum()\<close> raises
  \<open>ValueError\<close> for a period that is not positive; otherwise it makes left-closed bins
  labelled by their left edge, anchored at the midnight before the first timestamp,
  from the bin of the first timestamp to the bin of the last; it adds the values of
  each bin in index order, skipping NaN, and an empty bin sums to \<open>0.0\<close>.
\<close>

definition day :: int where
  "day = 86400000000000"

definition hour :: int where
  "hour = 3600000000000"

definition infer_freq_tick :: "timestamp list \<Rightarrow> py_error + int option" where
  "infer_freq_tick idx =
     (if length idx < 3 then Inl ValueError
      else if \<not> (sorted_wrt (<) idx \<or> sorted_wrt (>) idx) then Inr None
      else (case remdups (map (\<lambda>(a, b). b - a) (zip idx (tl idx))) of
              [d] \<Rightarrow> Inr (Some d)
            | _ \<Rightarrow> Inr None))"

definition bin_sum :: "f64 list \<Rightarrow> f64" where
  "bin_sum vs = foldl (\<lambda>acc v. acc + v) (Zero False) (filter (\<lambda>v. v \<noteq> NaN) vs)"

definition resample_sum_tick :: "int \<Rightarrow> series \<Rightarrow> py_error + series" where
  "resample_sum_tick p s =
     (if p \<le> 0 then Inl ValueError
      else if s = [] then Inr []
      else let first_ts = hd (sort (index s));
               last_ts = last (sort (index s));
               start_day = first_ts - first_ts mod day;
               first_label = first_ts - (first_ts - start_day) mod p;
               last_label = last_ts - (last_ts - start_day) mod p
           in Inr (map (\<lambda>k. let label = first_label + int k * p
                             in (label, bin_sum (map snd (filter (\<lambda>(t, v). label \<le> t \<and> t < label + p) s))))
                     [0 ..< nat ((last_label - first_label) div p) + 1]))"

definition tick_pandas :: "int pandas" where
  "tick_pandas = \<lparr>infer_freq = infer_freq_tick, resample_sum = resample_sum_tick\<rparr>"

section \<open>Example inputs\<close>

text \<open>
  Irradiance of 1000 W/m2 at the midnights of two days and a 300 W module; a one-day
  energy series and a two-day one with the explicit frequency \<open>'D'\<close>; without a
  frequency, two three-day ones, an irregular hourly one, a daily one with a gap (its
  third day is missing) and a daily one in decreasing order.
\<close>

definition example_kws :: pvwatts_kws where
  "example_kws =
     \<lparr>kw_poa_global = Some [(0, Fin 1000), (day, Fin 1000)], kw_P_stc = Some (Fin 300),
      kw_T_cell = None, kw_G_stc = None, kw_T_stc = None, kw_gamma_pdc = None\<rparr>"

definition energy_one_day :: "int energy_series" where
  "energy_one_day = \<lparr>freq = Some day, rows = [(0, Fin 600)]\<rparr>"

definition energy_three_days :: "int energy_series" where
  "energy_three_days = \<lparr>freq = None, rows = [(0, Fin 600), (day, Fin 300), (2 * day, Fin 600)]\<rparr>"

definition energy_two_days :: "int energy_series" where
  "energy_two_days = \<lparr>freq = Some day, rows = [(0, Fin 600), (day, Fin 300)]\<rparr>"

definition energy_three_days' :: "int energy_series" where
  "energy_three_days' = \<lparr>freq = None, rows = [(0, Fin 300), (day, Fin 600), (2 * day, Fin 300)]\<rparr>"

definition energy_irregular :: "int energy_series" where
  "energy_irregular = \<lparr>freq = None, rows = [(0, Fin 600), (hour, Fin 300), (3 * hour, Fin 600)]\<rparr>"

definition energy_gap :: "int energy_series" where
  "energy_gap = \<lparr>freq = None, rows = [(0, Fin 600), (day, Fin 300), (3 * day, Fin 600)]\<rparr>"

definition energy_decreasing :: "int energy_series" where
  "energy_decreasing = \<lparr>freq = None, rows = [(2 * day, Fin 600), (day, Fin 300), (0, Fin 600)]\<rparr>"

text \<open>
  A PV system for the examples.  Its state is the log of the calls made; every
  operation appends its name and hands on one of its inputs, so that the result shows
  which output fed which stage.
\<close>

definition logged :: "string \<Rightarrow> 'a \<Rightarrow> (string list, 'a) call" where
  "logged name r s = (Inr r, s @ [name])"

definition example_system :: "(string list, unit) pvsystem" where
  "example_system =
     \<lparr>get_solarposition = (\<lambda>idx. logged ''get_solarposition''
          \<lparr>frame_index = idx,
           columns = [''zenith'' \<mapsto> map (\<lambda>t. (t, Fin 30)) idx,
                      ''azimuth'' \<mapsto> map (\<lambda>t. (t, Fin 180)) idx]\<rparr>),
      get_poa_global = (\<lambda>zenith azimuth dni ghi dhi. logged ''get_poa_global''
          \<lparr>frame_index = index dni,
           columns = [''poa_direct'' \<mapsto> dni, ''poa_diffuse'' \<mapsto> dhi, ''poa_global'' \<mapsto> ghi]\<rparr>),
      get_aoi = (\<lambda>zenith azimuth. logged ''get_aoi'' zenith),
      get_airmass = (\<lambda>solar_position model. logged ''get_airmass''
          \<lparr>frame_index = frame_index solar_position,
           columns = [''airmass_absolute'' \<mapsto> map (\<lambda>t. (t, Fin 2)) (frame_index solar_position)]\<rparr>),
      module = (),
      sapm_celltemp = (\<lambda>irrad wind temp. logged ''sapm_celltemp''
          \<lparr>frame_index = index temp, columns = [''temp_cell'' \<mapsto> temp]\<rparr>),
      pvwatts_dc = (\<lambda>g_poa_effective temp_cell. logged ''pvwatts_dc'' g_poa_effective)\<rparr>"

definition example_pvlib :: "(string list, unit) pvlib" where
  "example_pvlib =
     \<lparr>sapm_effective_poa_global =
        (\<lambda>poa_direct poa_diffuse airmass_absolute aoi module reference_poa_global.
           logged ''sapm_effective_poa_global'' poa_direct)\<rparr>"

definition example_frame :: frame where
  "example_frame =
     \<lparr>frame_index = [0, day],
      columns = [''DNI'' \<mapsto> [(0, Fin 300), (day, Fin 300)],
                 ''GHI'' \<mapsto> [(0, Fin 400), (day, Fin 400)],
                 ''DHI'' \<mapsto> [(0, Fin 100), (day, Fin 100)],
                 ''Wind Speed'' \<mapsto> [(0, Fin 5), (day, Fin 5)],
                 ''Temperature'' \<mapsto> [(0, Fin 20), (day, Fin 20)]]\<rparr>"

definition example_sapm_kws :: "(string list, unit) sapm_kws" where
  "example_sapm_kws =
     \<lparr>kw_pvlib_pvsystem = Some example_system, kw_poa_frame = Some example_frame\<rparr>"

definition example_log :: "string list" where
  "example_log = [''get_solarposition'', ''get_poa_global'', ''get_aoi'', ''get_airmass'',
     ''sapm_effective_poa_global'', ''sapm_celltemp'', ''pvwatts_dc'']"

section \<open>Rounding\<close>

lemma bit_length_bounds: "0 < n \<Longrightarrow> 2 ^ (bit_length n - 1) \<le> n \<and> n < 2 ^ bit_length n"
proof (induction n rule: bit_length.induct)
  case (1 n)
  show ?case
  proof (cases "n div 2 = 0")
    case True
    with "1.prems" have "n = 1" by presburger
    then show ?thesis by (simp add: bit_length.simps)
  next
    case False
    then have pos: "0 < n div 2" by simp
    from "1.IH" "1.prems" pos
    have ih: "2 ^ (bit_length (n div 2) - 1) \<le> n div 2 \<and> n div 2 < 2 ^ bit_length (n div 2)"
      by simp
    have bl: "bit_length n = Suc (bit_length (n div 2))"
      using "1.prems" by (subst bit_length.simps) simp
    have nz: "bit_length (n div 2) \<noteq> 0"
      using pos by (subst bit_length.simps) simp
    then obtain k where k: "bit_length (n div 2) = Suc k" by (cases "bit_length (n div 2)") auto
    from ih k have "2 ^ k \<le> n div 2" "n div 2 < 2 ^ Suc k" by simp_all
    then have "2 ^ Suc k \<le> n" "n < 2 ^ Suc (Suc k)" by simp_all
    then show ?thesis by (simp add: bl k)
  qed
qed

lemma round_half_even_of_int: "round_half_even (of_int z) = z"
  by (simp add: round_half_even_def)

text \<open>Integers below \<open>2 ^ 53\<close> in magnitude are floats: rounding leaves them as they are.\<close>

lemma round64_of_nat:
  assumes "0 < N" and "N < 2 ^ 53"
  shows "round64 (of_nat N) = Fin (of_nat N)" and "round64 (- of_nat N) = Fin (- of_nat N)"
proof -
  define b where "b = bit_length N"
  from bit_length_bounds [OF assms(1)] have lo: "2 ^ (b - 1) \<le> N" and hi: "N < 2 ^ b"
    by (simp_all add: b_def)
  from lo assms(2) have "(2::nat) ^ (b - 1) < 2 ^ 53" by linarith
  then have b53: "b - 1 < 53" by (simp only: power_strict_increasing_iff rel_simps)
  from hi assms(1) have b0: "0 < b" by (cases b) auto
  have il: "ilog2 (of_nat N) = int b - 1"
    using assms(1) by (simp add: ilog2_def b_def)
  define d where "d = 53 - b"
  have u: "pow2 (int b - 53) = 1 / 2 ^ d"
  proof (cases "b = 53")
    case True
    then show ?thesis by (simp add: pow2_def d_def)
  next
    case False
    with b53 b0 have "b < 53" by linarith
    then have "nat (53 - int b) = d" "\<not> 53 \<le> int b" by (simp_all add: d_def)
    then show ?thesis using b0 by (simp add: pow2_def)
  qed
  have quot: "(of_nat N :: rat) * 2 ^ d = of_int (int N * 2 ^ d)"
    by simp
  have m: "round_half_even ((of_nat N :: rat) * 2 ^ d) = int N * 2 ^ d"
    unfolding quot by (rule round_half_even_of_int)
  have mz: "int N * 2 ^ d \<noteq> 0" using assms(1) by simp
  have "(of_nat N :: rat) < 2 ^ 53" using assms(2)
    by (metis of_nat_less_iff of_nat_numeral of_nat_power)
  also have "(2::rat) ^ 53 \<le> 2 ^ 1024" by (rule power_increasing) simp_all
  finally have ov: "\<not> pow2 1024 \<le> (of_nat N :: rat)" by (simp add: pow2_def)
  show "round64 (of_nat N) = Fin (of_nat N)"
    using assms(1) mz ov by (simp add: round64_def Let_def il u m)
  show "round64 (- of_nat N) = Fin (- of_nat N)"
    using assms(1) mz ov by (simp add: round64_def Let_def il u m)
qed

lemma round64_numeral:
  "(numeral k :: nat) < 9007199254740992 \<Longrightarrow> round64 (numeral k) = Fin (numeral k)"
  "(numeral k :: nat) < 9007199254740992 \<Longrightarrow> round64 (- numeral k) = Fin (- numeral k)"
  using round64_of_nat [of "numeral k"] by simp_all

lemma round64_one: "round64 1 = Fin 1"
  using round64_of_nat [of 1] by simp

lemma pow2_nonneg: "pow2 (int n) = 2 ^ n"
  by (simp add: pow2_def)

lemma pow2_neg: "pow2 (- int n) = 1 / 2 ^ n"
  by (auto simp: pow2_def)

text \<open>\<open>ilog2\<close> is the binary exponent: \<open>2 ^ ilog2 a \<le> a < 2 ^ (ilog2 a + 1)\<close>.\<close>

lemma ilog2_bounds:
  assumes "0 < a"
  shows "pow2 (ilog2 a) \<le> a \<and> a < pow2 (ilog2 a + 1)"
proof (cases "1 \<le> a")
  case True
  define n where "n = nat \<lfloor>a\<rfloor>"
  define b where "b = bit_length n"
  from True have fl: "1 \<le> \<lfloor>a\<rfloor>" by simp
  then have n1: "0 < n" and nf: "int n = \<lfloor>a\<rfloor>" by (simp_all add: n_def)
  from bit_length_bounds [OF n1] have lo: "2 ^ (b - 1) \<le> n" and hi: "n < 2 ^ b"
    by (simp_all add: b_def)
  from hi n1 have b0: "0 < b" by (cases b) auto
  have il: "ilog2 a = int (b - 1)" "ilog2 a + 1 = int b"
    using True b0 by (simp_all add: ilog2_def n_def b_def)
  have "(2::rat) ^ (b - 1) \<le> of_nat n"
    using lo by (metis of_nat_le_iff of_nat_numeral of_nat_power)
  also have "(of_nat n :: rat) = of_int \<lfloor>a\<rfloor>" using nf by (metis of_int_of_nat_eq)
  also have "\<dots> \<le> a" by simp
  finally have 1: "pow2 (ilog2 a) \<le> a" by (simp only: il(1) pow2_nonneg)
  have "int n + 1 \<le> 2 ^ b" using hi by (metis of_nat_less_iff of_nat_numeral of_nat_power zless_imp_add1_zle)
  then have "\<lfloor>a\<rfloor> + 1 \<le> 2 ^ b" by (simp add: nf)
  then have "(of_int (\<lfloor>a\<rfloor> + 1) :: rat) \<le> 2 ^ b"
    by (metis of_int_le_iff of_int_numeral of_int_power)
  moreover have "a < of_int (\<lfloor>a\<rfloor> + 1)" by linarith
  ultimately have "a < 2 ^ b" by linarith
  then have 2: "a < pow2 (ilog2 a + 1)" by (simp only: il(2) pow2_nonneg)
  from 1 2 show ?thesis ..
next
  case False
  then have a1: "a < 1" by simp
  define c where "c = \<lceil>1 / a\<rceil>"
  define n where "n = nat (c - 1)"
  define b where "b = bit_length n"
  from assms a1 have inv: "1 < 1 / a" by simp
  then have c2: "2 \<le> c" unfolding c_def by linarith
  then have n1: "0 < n" and nc: "int n = c - 1" by (simp_all add: n_def)
  from bit_length_bounds [OF n1] have lo: "2 ^ (b - 1) \<le> n" and hi: "n < 2 ^ b"
    by (simp_all add: b_def)
  from hi n1 have b0: "0 < b" by (cases b) auto
  have il: "ilog2 a = - int b" "ilog2 a + 1 = - int (b - 1)"
    using False b0 by (simp_all add: ilog2_def n_def b_def c_def)
  have "int n + 1 \<le> 2 ^ b" using hi by (metis of_nat_less_iff of_nat_numeral of_nat_power zless_imp_add1_zle)
  then have "c \<le> 2 ^ b" by (simp add: nc)
  then have "(of_int c :: rat) \<le> 2 ^ b"
    by (metis of_int_le_iff of_int_numeral of_int_power)
  moreover have "1 / a \<le> of_int c" unfolding c_def by linarith
  ultimately have "1 / a \<le> 2 ^ b" by linarith
  then have "1 / 2 ^ b \<le> a" using assms by (simp add: field_simps)
  then have 1: "pow2 (ilog2 a) \<le> a" by (simp only: il(1) pow2_neg)
  have "int (2 ^ (b - 1)) \<le> int n" using lo by (simp only: of_nat_le_iff)
  then have "(2::int) ^ (b - 1) \<le> c - 1" by (simp add: nc)
  then have "(2::rat) ^ (b - 1) \<le> of_int (c - 1)"
    by (metis of_int_le_iff of_int_numeral of_int_power)
  moreover have "of_int (c - 1) < 1 / a" unfolding c_def by linarith
  ultimately have "(2::rat) ^ (b - 1) < 1 / a" by linarith
  then have "a < 1 / 2 ^ (b - 1)" using assms by (simp add: field_simps)
  then have 2: "a < pow2 (ilog2 a + 1)" by (simp only: il(2) pow2_neg)
  from 1 2 show ?thesis ..
qed


lemma pow2_pos: "0 < pow2 e"
  by (simp add: pow2_def)

lemma round_half_even_near: "\<bar>x - of_int (round_half_even x)\<bar> \<le> 1 / 2"
proof -
  have "of_int \<lfloor>x\<rfloor> \<le> x" "x < of_int \<lfloor>x\<rfloor> + 1" by linarith+
  then show ?thesis by (auto simp: round_half_even_def Let_def)
qed

text \<open>A finite result of rounding is within half a unit in the last place of the exact value.\<close>

lemma round64_near:
  assumes "round64 q = Fin r"
  shows "\<bar>q - r\<bar> \<le> pow2 (max (ilog2 \<bar>q\<bar>) (- 1022) - 52) / 2"
proof -
  define u where "u = pow2 (max (ilog2 \<bar>q\<bar>) (- 1022) - 52)"
  define m where "m = round_half_even (\<bar>q\<bar> / u)"
  have u0: "0 < u" by (simp add: u_def pow2_pos)
  from assms have q0: "q \<noteq> 0" and r: "r = sgn q * of_int m * u"
    by (auto simp: round64_def Let_def u_def m_def split: if_splits)
  have "q = sgn q * \<bar>q\<bar>"
    by (simp add: sgn_mult_abs)
  then have "q - r = sgn q * (\<bar>q\<bar> - of_int m * u)"
    by (simp add: r algebra_simps)
  then have "\<bar>q - r\<bar> = \<bar>sgn q * (\<bar>q\<bar> - of_int m * u)\<bar>"
    by simp
  also have "\<dots> = \<bar>\<bar>q\<bar> - of_int m * u\<bar>"
    using q0 by (simp add: abs_mult abs_sgn_eq)
  also have "\<dots> = u * \<bar>\<bar>q\<bar> / u - of_int m\<bar>"
  proof -
    have "\<bar>q\<bar> - of_int m * u = u * (\<bar>q\<bar> / u - of_int m)"
      using u0 by (simp add: algebra_simps)
    then have "\<bar>\<bar>q\<bar> - of_int m * u\<bar> = \<bar>u\<bar> * \<bar>\<bar>q\<bar> / u - of_int m\<bar>"
      by (simp only: abs_mult)
    then show ?thesis using u0 by simp
  qed
  also have "\<dots> \<le> u * (1 / 2)"
    using u0 round_half_even_near [of "\<bar>q\<bar> / u"] by (simp add: m_def)
  finally show ?thesis by (simp add: u_def)
qed

lemma floor_rat_numeral: "\<lfloor>numeral a / numeral b :: rat\<rfloor> = numeral a div numeral b"
  by (metis floor_divide_of_int_eq of_int_numeral)

lemma ceiling_rat_numeral: "\<lceil>numeral a / numeral b :: rat\<rceil> = - ((- numeral a) div numeral b)"
  by (metis ceiling_def floor_divide_of_int_eq of_int_numeral of_int_minus minus_divide_left)

text \<open>
  Rounding a given rational, from its binary exponent \<open>e\<close> and the rounded significand
  \<open>m\<close>; the four facts are computations.
\<close>

lemma round64_cert:
  assumes "q \<noteq> 0" and "ilog2 \<bar>q\<bar> = e" and "pow2 (max e (- 1022) - 52) = u"
    and "round_half_even (\<bar>q\<bar> / u) = m" and "m \<noteq> 0" and "rat_of_int m * u < pow2 1024"
  shows "round64 q = Fin (sgn q * of_int m * u)"
  using assms by (simp add: round64_def Let_def)

text \<open>
  The floats \<open>0.1\<close> and \<open>0.3\<close>, the product \<open>3 * 0.1 = 0.30000000000000004\<close> and the
  quotient \<open>0.30000000000000004 / 3 = 0.10000000000000002\<close>.
\<close>

lemma round64_tenth: "round64 (1 / 10) = Fin (3602879701896397 / 36028797018963968)"
proof -
  have "round64 (1 / 10) = Fin (sgn (1 / 10) * of_int 7205759403792794 * (1 / 72057594037927936))"
  proof (rule round64_cert)
    show "ilog2 \<bar>1 / 10\<bar> = - 4"
      by (simp add: ilog2_def bit_length.simps ceiling_rat_numeral floor_rat_numeral)
    show "pow2 (max (- 4) (- 1022) - 52) = 1 / 72057594037927936"
      by (simp add: pow2_def)
    show "round_half_even (\<bar>1 / 10\<bar> / (1 / 72057594037927936)) = 7205759403792794"
      by (simp add: round_half_even_def Let_def floor_rat_numeral)
    show "rat_of_int 7205759403792794 * (1 / 72057594037927936) < pow2 1024"
      by (simp add: pow2_def)
  qed simp_all
  then show ?thesis by simp
qed

lemma round64_three_tenths: "round64 (3 / 10) = Fin (5404319552844595 / 18014398509481984)"
proof -
  have "round64 (3 / 10) = Fin (sgn (3 / 10) * of_int 5404319552844595 * (1 / 18014398509481984))"
  proof (rule round64_cert)
    show "ilog2 \<bar>3 / 10\<bar> = - 2"
      by (simp add: ilog2_def bit_length.simps ceiling_rat_numeral floor_rat_numeral)
    show "pow2 (max (- 2) (- 1022) - 52) = 1 / 18014398509481984"
      by (simp add: pow2_def)
    show "round_half_even (\<bar>3 / 10\<bar> / (1 / 18014398509481984)) = 5404319552844595"
      by (simp add: round_half_even_def Let_def floor_rat_numeral)
    show "rat_of_int 5404319552844595 * (1 / 18014398509481984) < pow2 1024"
      by (simp add: pow2_def)
  qed simp_all
  then show ?thesis by simp
qed

lemma round64_thrice_tenth: "round64 (10808639105689191 / 36028797018963968) = Fin (1351079888211149 / 4503599627370496)"
proof -
  have "round64 (10808639105689191 / 36028797018963968) = Fin (sgn (10808639105689191 / 36028797018963968) * of_int 5404319552844596 * (1 / 18014398509481984))"
  proof (rule round64_cert)
    show "ilog2 \<bar>10808639105689191 / 36028797018963968\<bar> = - 2"
      by (simp add: ilog2_def bit_length.simps ceiling_rat_numeral floor_rat_numeral)
    show "pow2 (max (- 2) (- 1022) - 52) = 1 / 18014398509481984"
      by (simp add: pow2_def)
    show "round_half_even (\<bar>10808639105689191 / 36028797018963968\<bar> / (1 / 18014398509481984)) = 5404319552844596"
      by (simp add: round_half_even_def Let_def floor_rat_numeral)
    show "rat_of_int 5404319552844596 * (1 / 18014398509481984) < pow2 1024"
      by (simp add: pow2_def)
  qed simp_all
  then show ?thesis by simp
qed

lemma round64_third_of_that: "round64 (1351079888211149 / 13510798882111488) = Fin (7205759403792795 / 72057594037927936)"
proof -
  have "round64 (1351079888211149 / 13510798882111488) = Fin (sgn (1351079888211149 / 13510798882111488) * of_int 7205759403792795 * (1 / 72057594037927936))"
  proof (rule round64_cert)
    show "ilog2 \<bar>1351079888211149 / 13510798882111488\<bar> = - 4"
      by (simp add: ilog2_def bit_length.simps ceiling_rat_numeral floor_rat_numeral)
    show "pow2 (max (- 4) (- 1022) - 52) = 1 / 72057594037927936"
      by (simp add: pow2_def)
    show "round_half_even (\<bar>1351079888211149 / 13510798882111488\<bar> / (1 / 72057594037927936)) = 7205759403792795"
      by (simp add: round_half_even_def Let_def floor_rat_numeral)
    show "rat_of_int 7205759403792795 * (1 / 72057594037927936) < pow2 1024"
      by (simp add: pow2_def)
  qed simp_all
  then show ?thesis by simp
qed

lemmas float_eval = times_f64_def divide_f64_def plus_f64_def minus_f64_def
  round64_numeral round64_one

section \<open>Aligned operations\<close>

lemma fdiv_NaN_right: "fdiv x NaN = NaN"
  by (cases x) simp_all

lemma index_zip_rows:
  "map fst a = map fst b \<Longrightarrow> map fst (map (\<lambda>((t, x), (_, y)). (t, f x y)) (zip a b)) = map fst a"
proof (induction a arbitrary: b)
  case Nil
  then show ?case by simp
next
  case (Cons r a)
  then obtain r' b' where b: "b = r' # b'" by (cases b) auto
  with Cons show ?case by (cases r) (auto split: prod.splits)
qed

lemma map_of_zip_rows:
  "map fst a = map fst b \<Longrightarrow>
   map_of (map (\<lambda>((t, x), (_, y)). (t, f x y)) (zip a b)) t =
     (if t \<in> set (map fst a) then Some (f (value_at a t) (value_at b t)) else None)"
proof (induction a arbitrary: b)
  case Nil
  then show ?case by simp
next
  case (Cons r a)
  then obtain r' b' where b: "b = r' # b'" by (cases b) auto
  from Cons.prems b have fst: "fst r = fst r'" and rest: "map fst a = map fst b'" by simp_all
  from Cons.IH [OF rest] fst show ?case
    by (cases r; cases r') (auto simp: b value_at_def)
qed

lemma map_of_tabulate:
  "map_of (map (\<lambda>t. (t, g t)) ks) t = (if t \<in> set ks then Some (g t) else None)"
  by (induction ks) auto

lemma index_align_op_same: "index a = index b \<Longrightarrow> index (align_op f a b) = index a"
  by (simp add: align_op_def index_def index_zip_rows del: map_map)

lemma set_index_align_op: "set (index (align_op f a b)) = set (index a) \<union> set (index b)"
proof (cases "index a = index b")
  case True
  then show ?thesis by (simp add: index_align_op_same)
next
  case False
  then show ?thesis by (simp add: align_op_def index_def comp_def)
qed

lemma index_align_op_subset:
  assumes "set (index b) \<subseteq> set (index a)" and "sorted_wrt (<) (index a)"
  shows "index (align_op f a b) = index a"
proof (cases "index a = index b")
  case True
  then show ?thesis by (simp add: index_align_op_same)
next
  case False
  have "sort (remdups (index a @ index b)) = index a"
  proof (rule sorted_distinct_set_unique)
    show "sorted (index a)" using assms(2) by (simp add: strict_sorted_iff)
    show "distinct (index a)" using assms(2) by (simp add: strict_sorted_iff)
    show "set (sort (remdups (index a @ index b))) = set (index a)" using assms(1) by auto
  qed simp_all
  with False show ?thesis by (simp add: align_op_def index_def comp_def)
qed

lemma map_of_align_op:
  "map_of (align_op f a b) t =
     (if t \<in> set (index a) \<union> set (index b) then Some (f (value_at a t) (value_at b t)) else None)"
proof (cases "index a = index b")
  case True
  then show ?thesis by (simp add: align_op_def index_def map_of_zip_rows)
next
  case False
  then show ?thesis by (simp add: align_op_def map_of_tabulate)
qed

lemma value_at_missing: "t \<notin> set (index s) \<Longrightarrow> value_at s t = NaN"
  by (simp add: value_at_def index_def map_of_eq_None_iff [THEN iffD2])

lemma normalize_with_pvwatts_unfold:
  "normalize_with_pvwatts pd energy kws =
     (case resolve_freq pd energy of
        Inl e \<Rightarrow> Inl e
      | Inr fr \<Rightarrow>
          (case call_pvwatts_dc_power kws of
             Inl e \<Rightarrow> Inl e
           | Inr dc \<Rightarrow>
               (case fr of
                  None \<Rightarrow> Inl AttributeError
                | Some f \<Rightarrow>
                    (case resample_sum pd f dc of
                       Inl e \<Rightarrow> Inl e
                     | Inr energy_dc \<Rightarrow> Inr (series_div (rows energy) energy_dc)))))"
  by (simp add: normalize_with_pvwatts_def resolve_freq_def split: sum.splits option.splits)

lemma normalize_with_sapm_unfold:
  "normalize_with_sapm pd lib energy kws s =
     (case resolve_freq pd energy of
        Inl e \<Rightarrow> (Inl e, s)
      | Inr fr \<Rightarrow>
          (case call_sapm_dc_power lib kws s of
             (Inl e, s') \<Rightarrow> (Inl e, s')
           | (Inr dc, s') \<Rightarrow>
               (case fr of
                  None \<Rightarrow> (Inl AttributeError, s')
                | Some f \<Rightarrow>
                    (case resample_sum pd f dc of
                       Inl e \<Rightarrow> (Inl e, s')
                     | Inr energy_dc \<Rightarrow> (Inr (series_div (rows energy) energy_dc), s')))))"
  by (simp add: normalize_with_sapm_def resolve_freq_def and_then_def result_def
      split: sum.splits prod.splits option.splits)

section \<open>The examples, computed\<close>

lemma day_facts:
  "0 < day" "0 \<le> day" "day \<noteq> 0" "0 \<noteq> day" "\<not> day \<le> 0" "day < 2 * day" "day \<le> 2 * day"
  "\<not> 2 * day \<le> 0" "\<not> 2 * day \<le> day" "day \<noteq> 2 * day" "2 * day \<noteq> 0"
  by (simp_all add: day_def)

lemma example_dc_power:
  "call_pvwatts_dc_power example_kws = Inr [(0, Fin 300), (day, Fin 300)]"
  by (simp add: call_pvwatts_dc_power_def example_kws_def pvwatts_dc_power_def scalar_mul_def
      div_scalar_def float_eval)

lemma example_resample:
  "resample_sum_tick day [(0, Fin 300), (day, Fin 300)] = Inr [(0, Fin 300), (day, Fin 300)]"
  by (simp add: resample_sum_tick_def index_def Let_def bin_sum_def float_eval day_def
      upt_rec [of 0] upt_rec [of 1])

lemmas example_eval = tick_pandas_def example_dc_power example_resample series_div_def
  align_op_def index_def value_at_def float_eval day_facts Let_def

lemma example_one_day:
  "normalize_with_pvwatts tick_pandas energy_one_day example_kws = Inr [(0, Fin 2), (day, NaN)]"
  by (simp add: normalize_with_pvwatts_def energy_one_day_def example_eval)

lemma example_two_days:
  "normalize_with_pvwatts tick_pandas energy_two_days example_kws = Inr [(0, Fin 2), (day, Fin 1)]"
  by (simp add: normalize_with_pvwatts_def energy_two_days_def example_eval)

lemma example_three_days:
  "normalize_with_pvwatts tick_pandas energy_three_days example_kws
     = Inr [(0, Fin 2), (day, Fin 1), (2 * day, NaN)]"
  by (simp add: normalize_with_pvwatts_def energy_three_days_def infer_freq_tick_def example_eval)

lemma example_three_days':
  "normalize_with_pvwatts tick_pandas energy_three_days' example_kws
     = Inr [(0, Fin 1), (day, Fin 2), (2 * day, NaN)]"
  by (simp add: normalize_with_pvwatts_def energy_three_days'_def infer_freq_tick_def example_eval)

lemma example_irregular_infer:
  "infer_freq tick_pandas (index (rows energy_irregular)) = Inr None"
  by (simp add: tick_pandas_def energy_irregular_def infer_freq_tick_def index_def hour_def)

lemma example_three_days_infer:
  "infer_freq tick_pandas (index (rows energy_three_days)) = Inr (Some day)"
  by (simp add: tick_pandas_def energy_three_days_def infer_freq_tick_def index_def day_facts)

lemma example_gap_infer:
  "infer_freq tick_pandas (index (rows energy_gap)) = Inr None"
  by (simp add: tick_pandas_def energy_gap_def infer_freq_tick_def index_def day_def)

lemma example_gap:
  "normalize_with_pvwatts tick_pandas energy_gap example_kws = Inl AttributeError"
  using example_gap_infer
  by (simp add: normalize_with_pvwatts_unfold resolve_freq_def energy_gap_def example_dc_power)

lemma example_decreasing_infer:
  "infer_freq tick_pandas (index (rows energy_decreasing)) = Inr (Some (- day))"
  by (simp add: tick_pandas_def energy_decreasing_def infer_freq_tick_def index_def day_def)

lemma example_decreasing_resample:
  "resample_sum tick_pandas (- day) [(0, Fin 300), (day, Fin 300)] = Inl ValueError"
  by (simp add: tick_pandas_def resample_sum_tick_def day_facts)

lemma example_decreasing:
  "normalize_with_pvwatts tick_pandas energy_decreasing example_kws = Inl ValueError"
  using example_decreasing_infer example_decreasing_resample
  by (simp add: normalize_with_pvwatts_unfold resolve_freq_def energy_decreasing_def
      example_dc_power)

lemma example_one_day_infer:
  "infer_freq tick_pandas (index (rows energy_one_day)) = Inl ValueError"
  by (simp add: tick_pandas_def energy_one_day_def infer_freq_tick_def index_def)

lemma example_sapm_dc_power:
  "sapm_dc_power example_pvlib example_system example_frame []
     = (Inr [(0, Fin 300), (day, Fin 300)], example_log)"
  by (simp add: sapm_dc_power_def example_pvlib_def example_system_def example_frame_def
      and_then_def result_def getitem_def logged_def example_log_def)

lemma example_call_sapm:
  "call_sapm_dc_power example_pvlib example_sapm_kws []
     = (Inr [(0, Fin 300), (day, Fin 300)], example_log)"
  by (simp add: call_sapm_dc_power_def example_sapm_kws_def example_sapm_dc_power)

lemma example_sapm_two_days:
  "normalize_with_sapm tick_pandas example_pvlib energy_two_days example_sapm_kws []
     = (Inr [(0, Fin 2), (day, Fin 1)], example_log)"
  by (simp add: normalize_with_sapm_unfold resolve_freq_def energy_two_days_def example_call_sapm example_eval)

lemma example_sapm_three_days:
  "normalize_with_sapm tick_pandas example_pvlib energy_three_days example_sapm_kws []
     = (Inr [(0, Fin 2), (day, Fin 1), (2 * day, NaN)], example_log)"
  by (simp add: normalize_with_sapm_unfold resolve_freq_def energy_three_days_def infer_freq_tick_def example_call_sapm example_eval)

lemma example_sapm_decreasing:
  "normalize_with_sapm tick_pandas example_pvlib energy_decreasing example_sapm_kws []
     = (Inl ValueError, example_log)"
  using example_decreasing_infer example_decreasing_resample
  by (simp add: normalize_with_sapm_unfold resolve_freq_def energy_decreasing_def
      example_call_sapm)

section \<open>Properties of the normalization\<close>

text \<open>
  Claim C1, as amended.  The index of the normalized series is not always the index of
  the energy series: the division aligns its operands, so the result holds the
  timestamps of the energy series together with those of the resampled modeled DC
  energy.  Whenever \<open>normalize_with_pvwatts\<close> or \<open>normalize_with_sapm\<close> returns, the
  labels of the result are exactly the labels of the two, the entries at the labels
  that only the resampled series has are \<open>NaN\<close>, and the result has the index of the
  energy series when that index is strictly increasing and every label of the
  resampled series occurs in it.
\<close>

theorem normalized_index_is_union:
  "(normalize_with_pvwatts pd energy kws = Inr out \<longrightarrow>
      (\<exists>f dc energy_dc. resolve_freq pd energy = Inr (Some f)
         \<and> call_pvwatts_dc_power kws = Inr dc \<and> resample_sum pd f dc = Inr energy_dc
         \<and> set (index out) = set (index (rows energy)) \<union> set (index energy_dc)
         \<and> (\<forall>t \<in> set (index energy_dc).
               t \<notin> set (index (rows energy)) \<longrightarrow> map_of out t = Some NaN)
         \<and> (set (index energy_dc) \<subseteq> set (index (rows energy))
              \<and> sorted_wrt (<) (index (rows energy))
              \<longrightarrow> index out = index (rows energy))))
   \<and> (normalize_with_sapm pd lib energy skws s = (Inr out', s') \<longrightarrow>
      (\<exists>f dc energy_dc. resolve_freq pd energy = Inr (Some f)
         \<and> call_sapm_dc_power lib skws s = (Inr dc, s') \<and> resample_sum pd f dc = Inr energy_dc
         \<and> set (index out') = set (index (rows energy)) \<union> set (index energy_dc)
         \<and> (\<forall>t \<in> set (index energy_dc).
               t \<notin> set (index (rows energy)) \<longrightarrow> map_of out' t = Some NaN)
         \<and> (set (index energy_dc) \<subseteq> set (index (rows energy))
              \<and> sorted_wrt (<) (index (rows energy))
              \<longrightarrow> index out' = index (rows energy))))"
proof (intro conjI impI)
  assume "normalize_with_pvwatts pd energy kws = Inr out"
  then obtain f dc energy_dc where "resolve_freq pd energy = Inr (Some f)"
    and "call_pvwatts_dc_power kws = Inr dc" and "resample_sum pd f dc = Inr energy_dc"
    and "out = series_div (rows energy) energy_dc"
    by (auto simp: normalize_with_pvwatts_unfold split: sum.splits option.splits)
  then show "\<exists>f dc energy_dc. resolve_freq pd energy = Inr (Some f)
         \<and> call_pvwatts_dc_power kws = Inr dc \<and> resample_sum pd f dc = Inr energy_dc
         \<and> set (index out) = set (index (rows energy)) \<union> set (index energy_dc)
         \<and> (\<forall>t \<in> set (index energy_dc).
               t \<notin> set (index (rows energy)) \<longrightarrow> map_of out t = Some NaN)
         \<and> (set (index energy_dc) \<subseteq> set (index (rows energy))
              \<and> sorted_wrt (<) (index (rows energy))
              \<longrightarrow> index out = index (rows energy))"
    by (auto simp: series_div_def set_index_align_op index_align_op_subset map_of_align_op
        value_at_missing divide_f64_def)
next
  assume "normalize_with_sapm pd lib energy skws s = (Inr out', s')"
  then obtain f dc energy_dc where "resolve_freq pd energy = Inr (Some f)"
    and "call_sapm_dc_power lib skws s = (Inr dc, s')" and "resample_sum pd f dc = Inr energy_dc"
    and "out' = series_div (rows energy) energy_dc"
    by (auto simp: normalize_with_sapm_unfold split: sum.splits option.splits prod.splits)
  then show "\<exists>f dc energy_dc. resolve_freq pd energy = Inr (Some f)
         \<and> call_sapm_dc_power lib skws s = (Inr dc, s') \<and> resample_sum pd f dc = Inr energy_dc
         \<and> set (index out') = set (index (rows energy)) \<union> set (index energy_dc)
         \<and> (\<forall>t \<in> set (index energy_dc).
               t \<notin> set (index (rows energy)) \<longrightarrow> map_of out' t = Some NaN)
         \<and> (set (index energy_dc) \<subseteq> set (index (rows energy))
              \<and> sorted_wrt (<) (index (rows energy))
              \<longrightarrow> index out' = index (rows energy))"
    by (auto simp: series_div_def set_index_align_op index_align_op_subset map_of_align_op
        value_at_missing divide_f64_def)
qed

theorem normalized_index_is_union_witness:
  "normalize_with_pvwatts tick_pandas energy_two_days example_kws = Inr [(0, Fin 2), (day, Fin 1)]
   \<and> normalize_with_sapm tick_pandas example_pvlib energy_two_days example_sapm_kws []
       = (Inr [(0, Fin 2), (day, Fin 1)], example_log)
   \<and> resample_sum tick_pandas day [(0, Fin 300), (day, Fin 300)]
       = Inr [(0, Fin 300), (day, Fin 300)]
   \<and> set (index [(0, Fin 300), (day, Fin 300)]) \<subseteq> set (index (rows energy_two_days))
   \<and> sorted_wrt (<) (index (rows energy_two_days))
   \<and> index [(0, Fin 2), (day, Fin 1)] = index (rows energy_two_days)
   \<and> normalize_with_pvwatts tick_pandas energy_one_day example_kws = Inr [(0, Fin 2), (day, NaN)]
   \<and> day \<in> set (index [(0, Fin 300), (day, Fin 300)])
   \<and> day \<notin> set (index (rows energy_one_day))
   \<and> map_of [(0, Fin 2), (day, NaN)] day = Some NaN"
proof -
  have a: "normalize_with_pvwatts tick_pandas energy_two_days example_kws
             = Inr [(0, Fin 2), (day, Fin 1)]"
    by (rule example_two_days)
  have b: "normalize_with_sapm tick_pandas example_pvlib energy_two_days example_sapm_kws []
             = (Inr [(0, Fin 2), (day, Fin 1)], example_log)"
    by (rule example_sapm_two_days)
  have f: "resolve_freq tick_pandas energy_two_days = Inr (Some day)"
    by (simp add: resolve_freq_def energy_two_days_def)
  have r: "resample_sum tick_pandas day [(0, Fin 300), (day, Fin 300)]
             = Inr [(0, Fin 300), (day, Fin 300)]"
    by (simp add: tick_pandas_def example_resample)
  have c: "set (index [(0, Fin 300), (day, Fin 300)]) \<subseteq> set (index (rows energy_two_days))"
    by (simp add: energy_two_days_def index_def)
  have d: "sorted_wrt (<) (index (rows energy_two_days))"
    by (simp add: energy_two_days_def index_def day_facts)
  from normalized_index_is_union [of tick_pandas energy_two_days example_kws
      "[(0, Fin 2), (day, Fin 1)]" example_pvlib example_sapm_kws "[]"
      "[(0, Fin 2), (day, Fin 1)]" example_log] a f r c d
  have e: "index [(0, Fin 2), (day, Fin 1)] = index (rows energy_two_days)"
    by (auto simp: example_dc_power)
  have a': "normalize_with_pvwatts tick_pandas energy_one_day example_kws
              = Inr [(0, Fin 2), (day, NaN)]"
    by (rule example_one_day)
  have f': "resolve_freq tick_pandas energy_one_day = Inr (Some day)"
    by (simp add: resolve_freq_def energy_one_day_def)
  have g: "day \<in> set (index [(0, Fin 300), (day, Fin 300)])"
    and h: "day \<notin> set (index (rows energy_one_day))"
    by (simp_all add: energy_one_day_def index_def day_facts)
  from normalized_index_is_union [of tick_pandas energy_one_day example_kws
      "[(0, Fin 2), (day, NaN)]" example_pvlib example_sapm_kws "[]"
      "[(0, Fin 2), (day, Fin 1)]" example_log] a' f' r g h
  have k: "map_of [(0, Fin 2), (day, NaN)] day = Some NaN"
    by (auto simp: example_dc_power)
  from a b r c d e a' g h k show ?thesis by simp
qed

text \<open>
  Claim C1, as stated, fails: a one-day energy series with the frequency \<open>'D'\<close>,
  normalized with irradiance that covers two days, comes back with two rows, the second
  one \<open>NaN\<close> at the timestamp that only the resampled series has.
\<close>

theorem normalized_index_counterexample:
  "normalize_with_pvwatts tick_pandas energy_one_day example_kws = Inr [(0, Fin 2), (day, NaN)]
   \<and> index [(0, Fin 2), (day, NaN)] \<noteq> index (rows energy_one_day)"
proof
  show "normalize_with_pvwatts tick_pandas energy_one_day example_kws = Inr [(0, Fin 2), (day, NaN)]"
    by (rule example_one_day)
  show "index [(0, Fin 2), (day, NaN)] \<noteq> index (rows energy_one_day)"
    by (simp add: energy_one_day_def index_def)
qed

text \<open>
  Claim C4.  In both normalization functions an explicit frequency of the energy index
  is the frequency used for resampling: the result is the division by the DC power
  resampled at that frequency, and it is the same whatever \<open>infer_freq\<close> would return,
  which is not consulted.  Only without an explicit frequency the result is computed
  from what \<open>infer_freq\<close> returns on the index.
\<close>

theorem explicit_frequency_wins:
  "(freq energy = Some f \<longrightarrow>
      normalize_with_pvwatts pd energy kws =
        (case call_pvwatts_dc_power kws of
           Inl e \<Rightarrow> Inl e
         | Inr dc \<Rightarrow>
             (case resample_sum pd f dc of
                Inl e \<Rightarrow> Inl e
              | Inr energy_dc \<Rightarrow> Inr (series_div (rows energy) energy_dc)))
      \<and> normalize_with_pvwatts (pd\<lparr>infer_freq := g\<rparr>) energy kws
          = normalize_with_pvwatts pd energy kws
      \<and> normalize_with_sapm pd lib energy skws s =
        (case call_sapm_dc_power lib skws s of
           (Inl e, s') \<Rightarrow> (Inl e, s')
         | (Inr dc, s') \<Rightarrow>
             (case resample_sum pd f dc of
                Inl e \<Rightarrow> (Inl e, s')
              | Inr energy_dc \<Rightarrow> (Inr (series_div (rows energy) energy_dc), s')))
      \<and> normalize_with_sapm (pd\<lparr>infer_freq := g\<rparr>) lib energy skws s
          = normalize_with_sapm pd lib energy skws s)
   \<and> (freq energy = None \<longrightarrow>
      normalize_with_pvwatts pd energy kws =
        (case infer_freq pd (index (rows energy)) of
           Inl e \<Rightarrow> Inl e
         | Inr fr \<Rightarrow>
             (case call_pvwatts_dc_power kws of
                Inl e \<Rightarrow> Inl e
              | Inr dc \<Rightarrow>
                  (case fr of
                     None \<Rightarrow> Inl AttributeError
                   | Some f' \<Rightarrow>
                       (case resample_sum pd f' dc of
                          Inl e \<Rightarrow> Inl e
                        | Inr energy_dc \<Rightarrow> Inr (series_div (rows energy) energy_dc)))))
      \<and> normalize_with_sapm pd lib energy skws s =
        (case infer_freq pd (index (rows energy)) of
           Inl e \<Rightarrow> (Inl e, s)
         | Inr fr \<Rightarrow>
             (case call_sapm_dc_power lib skws s of
                (Inl e, s') \<Rightarrow> (Inl e, s')
              | (Inr dc, s') \<Rightarrow>
                  (case fr of
                     None \<Rightarrow> (Inl AttributeError, s')
                   | Some f' \<Rightarrow>
                       (case resample_sum pd f' dc of
                          Inl e \<Rightarrow> (Inl e, s')
                        | Inr energy_dc \<Rightarrow> (Inr (series_div (rows energy) energy_dc), s'))))))"
  by (simp add: normalize_with_pvwatts_unfold normalize_with_sapm_unfold resolve_freq_def
      split: sum.splits prod.splits option.splits)

theorem explicit_frequency_wins_witness:
  "freq energy_two_days = Some day
   \<and> infer_freq tick_pandas (index (rows energy_two_days)) = Inl ValueError
   \<and> normalize_with_pvwatts (tick_pandas\<lparr>infer_freq := \<lambda>idx. Inr (Some hour)\<rparr>) energy_two_days example_kws
       = Inr [(0, Fin 2), (day, Fin 1)]
   \<and> normalize_with_sapm (tick_pandas\<lparr>infer_freq := \<lambda>idx. Inr (Some hour)\<rparr>) example_pvlib
         energy_two_days example_sapm_kws []
       = (Inr [(0, Fin 2), (day, Fin 1)], example_log)
   \<and> freq energy_three_days = None
   \<and> normalize_with_pvwatts tick_pandas energy_three_days example_kws
       = (case infer_freq tick_pandas (index (rows energy_three_days)) of
            Inl e \<Rightarrow> Inl e
          | Inr fr \<Rightarrow>
              (case fr of
                 None \<Rightarrow> Inl AttributeError
               | Some f' \<Rightarrow>
                   (case resample_sum tick_pandas f' [(0, Fin 300), (day, Fin 300)] of
                      Inl e \<Rightarrow> Inl e
                    | Inr energy_dc \<Rightarrow> Inr (series_div (rows energy_three_days) energy_dc))))"
proof -
  have a: "freq energy_two_days = Some day"
    by (simp add: energy_two_days_def)
  have b: "infer_freq tick_pandas (index (rows energy_two_days)) = Inl ValueError"
    by (simp add: tick_pandas_def energy_two_days_def infer_freq_tick_def index_def)
  have c: "freq energy_three_days = None"
    by (simp add: energy_three_days_def)
  from explicit_frequency_wins [of energy_two_days day tick_pandas example_kws
      "\<lambda>idx. Inr (Some hour)" example_pvlib example_sapm_kws "[]"] a
  have d: "normalize_with_pvwatts (tick_pandas\<lparr>infer_freq := \<lambda>idx. Inr (Some hour)\<rparr>)
             energy_two_days example_kws = Inr [(0, Fin 2), (day, Fin 1)]"
    and e: "normalize_with_sapm (tick_pandas\<lparr>infer_freq := \<lambda>idx. Inr (Some hour)\<rparr>) example_pvlib
             energy_two_days example_sapm_kws [] = (Inr [(0, Fin 2), (day, Fin 1)], example_log)"
    by (simp_all add: example_two_days example_sapm_two_days)
  from explicit_frequency_wins [of energy_three_days day tick_pandas example_kws
      "\<lambda>idx. Inr (Some hour)" example_pvlib example_sapm_kws "[]"] c
  have f: "normalize_with_pvwatts tick_pandas energy_three_days example_kws
       = (case infer_freq tick_pandas (index (rows energy_three_days)) of
            Inl e \<Rightarrow> Inl e
          | Inr fr \<Rightarrow>
              (case fr of
                 None \<Rightarrow> Inl AttributeError
               | Some f' \<Rightarrow>
                   (case resample_sum tick_pandas f' [(0, Fin 300), (day, Fin 300)] of
                      Inl e \<Rightarrow> Inl e
                    | Inr energy_dc \<Rightarrow> Inr (series_div (rows energy_three_days) energy_dc))))"
    by (simp add: example_dc_power split: sum.splits option.splits)
  from a b c d e f show ?thesis by simp
qed

text \<open>
  Claim C5.  When the energy index has no explicit frequency and none can be inferred
  (\<open>infer_freq\<close> returns \<open>None\<close>), neither normalization function returns a series: the
  call ends in an exception.  When the DC power model itself succeeds, that exception
  is the one raised for the missing frequency at \<open>resample\<close>; otherwise it is the
  exception of the DC power model, which runs first.
\<close>

theorem no_frequency_fails:
  assumes "freq energy = None" and "infer_freq pd (index (rows energy)) = Inr None"
  shows "(\<exists>e. normalize_with_pvwatts pd energy kws = Inl e)
    \<and> (\<forall>dc. call_pvwatts_dc_power kws = Inr dc
           \<longrightarrow> normalize_with_pvwatts pd energy kws = Inl AttributeError)
    \<and> (\<exists>e s'. normalize_with_sapm pd lib energy skws s = (Inl e, s'))
    \<and> (\<forall>dc s'. call_sapm_dc_power lib skws s = (Inr dc, s')
           \<longrightarrow> normalize_with_sapm pd lib energy skws s = (Inl AttributeError, s'))"
  using assms
  by (auto simp: normalize_with_pvwatts_unfold normalize_with_sapm_unfold resolve_freq_def
      split: sum.splits prod.splits)

theorem no_frequency_fails_witness:
  "freq energy_irregular = None
   \<and> infer_freq tick_pandas (index (rows energy_irregular)) = Inr None
   \<and> normalize_with_pvwatts tick_pandas energy_irregular example_kws = Inl AttributeError
   \<and> normalize_with_sapm tick_pandas example_pvlib energy_irregular example_sapm_kws []
       = (Inl AttributeError, example_log)"
proof -
  have a: "freq energy_irregular = None"
    by (simp add: energy_irregular_def)
  from no_frequency_fails [OF a example_irregular_infer, of example_kws example_pvlib
      example_sapm_kws "[]"] a example_irregular_infer
  show ?thesis
    by (simp add: example_dc_power example_call_sapm)
qed

text \<open>
  Claim C6, as stated, fails: an energy series with a gap has no frequency, explicit or
  inferred, and the normalization raises.  The daily series below lacks its third day;
  its last timestamp is in no interval of the modeled DC power resampled by day, and
  the call ends in the exception for the missing frequency, not in a series with a
  \<open>NaN\<close>.
\<close>

theorem gap_raises_counterexample:
  "index (rows energy_gap) = [0, day, 3 * day]
   \<and> freq energy_gap = None
   \<and> call_pvwatts_dc_power example_kws = Inr [(0, Fin 300), (day, Fin 300)]
   \<and> resample_sum tick_pandas day [(0, Fin 300), (day, Fin 300)]
       = Inr [(0, Fin 300), (day, Fin 300)]
   \<and> normalize_with_pvwatts tick_pandas energy_gap example_kws = Inl AttributeError"
  by (simp add: example_gap example_dc_power) (simp add: energy_gap_def index_def tick_pandas_def
      example_resample)

text \<open>
  Claim C6, as amended.  When the frequency of the energy series is explicit or
  inferred and the DC power is modeled, the normalization functions return whenever
  the resampling returns, and propagate its exception otherwise.  In the series they
  return every timestamp of the energy series has an entry: \<open>NaN\<close> where the resampled
  modeled DC energy has no such label, and the measured value divided by the modeled
  one where it has; the labels that only the resampled series has are \<open>NaN\<close> as well.
  When no frequency is explicit or inferred, as for an energy series with gaps, the
  functions raise.
\<close>

theorem normalized_entries_when_resampled:
  "(resolve_freq pd energy = Inr (Some f) \<and> call_pvwatts_dc_power kws = Inr dc \<longrightarrow>
      (\<forall>e. resample_sum pd f dc = Inl e \<longrightarrow> normalize_with_pvwatts pd energy kws = Inl e)
      \<and> (\<forall>energy_dc. resample_sum pd f dc = Inr energy_dc \<longrightarrow>
           (\<exists>out. normalize_with_pvwatts pd energy kws = Inr out
              \<and> (\<forall>t \<in> set (index (rows energy)).
                    (t \<notin> set (index energy_dc) \<longrightarrow> map_of out t = Some NaN)
                  \<and> (t \<in> set (index energy_dc) \<longrightarrow>
                       map_of out t = Some (value_at (rows energy) t / value_at energy_dc t)))
              \<and> (\<forall>t \<in> set (index energy_dc).
                    t \<notin> set (index (rows energy)) \<longrightarrow> map_of out t = Some NaN))))
   \<and> (resolve_freq pd energy = Inr (Some f) \<and> call_sapm_dc_power lib skws s = (Inr dc', s') \<longrightarrow>
      (\<forall>e. resample_sum pd f dc' = Inl e
           \<longrightarrow> normalize_with_sapm pd lib energy skws s = (Inl e, s'))
      \<and> (\<forall>energy_dc. resample_sum pd f dc' = Inr energy_dc \<longrightarrow>
           (\<exists>out. normalize_with_sapm pd lib energy skws s = (Inr out, s')
              \<and> (\<forall>t \<in> set (index (rows energy)).
                    (t \<notin> set (index energy_dc) \<longrightarrow> map_of out t = Some NaN)
                  \<and> (t \<in> set (index energy_dc) \<longrightarrow>
                       map_of out t = Some (value_at (rows energy) t / value_at energy_dc t)))
              \<and> (\<forall>t \<in> set (index energy_dc).
                    t \<notin> set (index (rows energy)) \<longrightarrow> map_of out t = Some NaN))))
   \<and> (resolve_freq pd energy = Inr None \<longrightarrow>
        (\<exists>e. normalize_with_pvwatts pd energy kws = Inl e)
        \<and> (\<exists>e s''. normalize_with_sapm pd lib energy skws s = (Inl e, s'')))"
  by (auto simp: normalize_with_pvwatts_unfold normalize_with_sapm_unfold series_div_def
      map_of_align_op value_at_missing divide_f64_def fdiv_NaN_right
      split: sum.splits prod.splits)

theorem normalized_entries_when_resampled_witness:
  "resolve_freq tick_pandas energy_three_days = Inr (Some day)
   \<and> call_pvwatts_dc_power example_kws = Inr [(0, Fin 300), (day, Fin 300)]
   \<and> call_sapm_dc_power example_pvlib example_sapm_kws []
       = (Inr [(0, Fin 300), (day, Fin 300)], example_log)
   \<and> resample_sum tick_pandas day [(0, Fin 300), (day, Fin 300)]
       = Inr [(0, Fin 300), (day, Fin 300)]
   \<and> (\<exists>out. normalize_with_pvwatts tick_pandas energy_three_days example_kws = Inr out
         \<and> map_of out (2 * day) = Some NaN
         \<and> map_of out day = Some (Fin 300 / Fin 300))
   \<and> (\<exists>out. normalize_with_sapm tick_pandas example_pvlib energy_three_days example_sapm_kws []
           = (Inr out, example_log)
         \<and> map_of out (2 * day) = Some NaN
         \<and> map_of out day = Some (Fin 300 / Fin 300))
   \<and> resolve_freq tick_pandas energy_decreasing = Inr (Some (- day))
   \<and> resample_sum tick_pandas (- day) [(0, Fin 300), (day, Fin 300)] = Inl ValueError
   \<and> normalize_with_pvwatts tick_pandas energy_decreasing example_kws = Inl ValueError
   \<and> normalize_with_sapm tick_pandas example_pvlib energy_decreasing example_sapm_kws []
       = (Inl ValueError, example_log)
   \<and> resolve_freq tick_pandas energy_gap = Inr None
   \<and> (\<exists>e. normalize_with_pvwatts tick_pandas energy_gap example_kws = Inl e)
   \<and> (\<exists>e s''. normalize_with_sapm tick_pandas example_pvlib energy_gap example_sapm_kws []
         = (Inl e, s''))"
proof -
  have a: "resolve_freq tick_pandas energy_three_days = Inr (Some day)"
    using example_three_days_infer by (simp add: resolve_freq_def energy_three_days_def)
  have r: "resample_sum tick_pandas day [(0, Fin 300), (day, Fin 300)]
             = Inr [(0, Fin 300), (day, Fin 300)]"
    by (simp add: tick_pandas_def example_resample)
  have i: "index (rows energy_three_days) = [0, day, 2 * day]"
    by (simp add: energy_three_days_def index_def)
  have j: "index [(0 :: timestamp, Fin 300), (day, Fin 300)] = [0, day]"
    by (simp add: index_def)
  have v: "value_at (rows energy_three_days) day = Fin 300"
    "value_at [(0, Fin 300), (day, Fin 300)] day = Fin 300"
    by (simp_all add: energy_three_days_def value_at_def day_facts)
  note three = normalized_entries_when_resampled [of tick_pandas energy_three_days day
      example_kws "[(0, Fin 300), (day, Fin 300)]" example_pvlib example_sapm_kws "[]"
      "[(0, Fin 300), (day, Fin 300)]" example_log]
  from three a example_dc_power r
  have p: "\<exists>out. normalize_with_pvwatts tick_pandas energy_three_days example_kws = Inr out
         \<and> map_of out (2 * day) = Some NaN
         \<and> map_of out day = Some (Fin 300 / Fin 300)"
    by (auto simp: i j v day_facts)
  from three a example_call_sapm r
  have q: "\<exists>out. normalize_with_sapm tick_pandas example_pvlib energy_three_days example_sapm_kws []
           = (Inr out, example_log)
         \<and> map_of out (2 * day) = Some NaN
         \<and> map_of out day = Some (Fin 300 / Fin 300)"
    by (auto simp: i j v day_facts)
  have b: "resolve_freq tick_pandas energy_decreasing = Inr (Some (- day))"
    using example_decreasing_infer by (simp add: resolve_freq_def energy_decreasing_def)
  note decreasing = normalized_entries_when_resampled [of tick_pandas energy_decreasing "- day"
      example_kws "[(0, Fin 300), (day, Fin 300)]" example_pvlib example_sapm_kws "[]"
      "[(0, Fin 300), (day, Fin 300)]" example_log]
  from decreasing b example_dc_power example_decreasing_resample
  have c: "normalize_with_pvwatts tick_pandas energy_decreasing example_kws = Inl ValueError"
    by blast
  from decreasing b example_call_sapm example_decreasing_resample
  have d: "normalize_with_sapm tick_pandas example_pvlib energy_decreasing example_sapm_kws []
             = (Inl ValueError, example_log)"
    by blast
  have g: "resolve_freq tick_pandas energy_gap = Inr None"
    using example_gap_infer by (simp add: resolve_freq_def energy_gap_def)
  note gap = normalized_entries_when_resampled [of tick_pandas energy_gap day
      example_kws "[(0, Fin 300), (day, Fin 300)]" example_pvlib example_sapm_kws "[]"
      "[(0, Fin 300), (day, Fin 300)]" example_log]
  from gap g
  have h: "\<exists>e. normalize_with_pvwatts tick_pandas energy_gap example_kws = Inl e"
    and k: "\<exists>e s''. normalize_with_sapm tick_pandas example_pvlib energy_gap example_sapm_kws []
              = (Inl e, s'')"
    by blast+
  from a example_dc_power example_call_sapm r p q b example_decreasing_resample c d g h k
  show ?thesis by simp
qed



section \<open>Properties of the SAPM model\<close>

text \<open>
  Claim C9.  \<open>sapm_dc_power\<close> makes seven calls in a fixed order, each on the state the
  previous one left and on the outputs of the earlier ones: the solar position from the
  index of the frame; the plane-of-array irradiance from its zenith and azimuth and the
  columns \<open>DNI\<close>, \<open>GHI\<close> and \<open>DHI\<close>; the angle of incidence from zenith and azimuth;
  the air mass from the solar position with the model \<open>kastenyoung1989\<close>, of which the
  absolute air mass is taken; the effective irradiance from the direct and diffuse
  plane-of-array irradiance, the absolute air mass, the angle of incidence and the
  module, with the reference irradiance 1; the cell temperature from the total
  plane-of-array irradiance and the columns \<open>Wind Speed\<close> and \<open>Temperature\<close>; and the
  DC power from the effective irradiance and the cell temperature, which is what
  \<open>sapm_dc_power\<close> returns.
\<close>

theorem sapm_dc_power_pipeline:
  assumes "get_solarposition sys (frame_index poa_global) s0 = (Inr solar_position, s1)"
    and "getitem solar_position ''zenith'' = Inr zenith"
    and "getitem solar_position ''azimuth'' = Inr azimuth"
    and "getitem poa_global ''DNI'' = Inr dni"
    and "getitem poa_global ''GHI'' = Inr ghi"
    and "getitem poa_global ''DHI'' = Inr dhi"
    and "get_poa_global sys zenith azimuth dni ghi dhi s1 = (Inr total_irradiance, s2)"
    and "get_aoi sys zenith azimuth s2 = (Inr aoi, s3)"
    and "get_airmass sys solar_position ''kastenyoung1989'' s3 = (Inr airmass, s4)"
    and "getitem airmass ''airmass_absolute'' = Inr airmass_absolute"
    and "getitem total_irradiance ''poa_direct'' = Inr poa_direct"
    and "getitem total_irradiance ''poa_diffuse'' = Inr poa_diffuse"
    and "sapm_effective_poa_global lib poa_direct poa_diffuse airmass_absolute aoi (module sys) 1 s4
           = (Inr effective_poa, s5)"
    and "getitem total_irradiance ''poa_global'' = Inr irrad"
    and "getitem poa_global ''Wind Speed'' = Inr wind"
    and "getitem poa_global ''Temperature'' = Inr temp"
    and "sapm_celltemp sys irrad wind temp s5 = (Inr temp_cell, s6)"
    and "getitem temp_cell ''temp_cell'' = Inr cell_temperature"
  shows "sapm_dc_power lib sys poa_global s0 = pvwatts_dc sys effective_poa cell_temperature s6"
  using assms by (simp add: sapm_dc_power_def and_then_def result_def)

theorem sapm_dc_power_pipeline_witness:
  "sapm_dc_power example_pvlib example_system example_frame []
     = (Inr [(0, Fin 300), (day, Fin 300)],
        [''get_solarposition'', ''get_poa_global'', ''get_aoi'', ''get_airmass'',
         ''sapm_effective_poa_global'', ''sapm_celltemp'', ''pvwatts_dc''])"
proof -
  let ?sp = "\<lparr>frame_index = [0, day],
              columns = [''zenith'' \<mapsto> [(0, Fin 30), (day, Fin 30)],
                         ''azimuth'' \<mapsto> [(0, Fin 180), (day, Fin 180)]]\<rparr>"
  let ?ti = "\<lparr>frame_index = [0, day],
              columns = [''poa_direct'' \<mapsto> [(0, Fin 300), (day, Fin 300)],
                         ''poa_diffuse'' \<mapsto> [(0, Fin 100), (day, Fin 100)],
                         ''poa_global'' \<mapsto> [(0, Fin 400), (day, Fin 400)]]\<rparr>"
  let ?am = "\<lparr>frame_index = [0, day],
              columns = [''airmass_absolute'' \<mapsto> [(0, Fin 2), (day, Fin 2)]]\<rparr>"
  let ?tc = "\<lparr>frame_index = [0, day],
              columns = [''temp_cell'' \<mapsto> [(0, Fin 20), (day, Fin 20)]]\<rparr>"
  note defs = example_system_def example_pvlib_def example_frame_def logged_def getitem_def
    index_def
  have "sapm_dc_power example_pvlib example_system example_frame []
          = pvwatts_dc example_system [(0, Fin 300), (day, Fin 300)] [(0, Fin 20), (day, Fin 20)]
              [''get_solarposition'', ''get_poa_global'', ''get_aoi'', ''get_airmass'',
               ''sapm_effective_poa_global'', ''sapm_celltemp'']"
  proof (rule sapm_dc_power_pipeline)
    show "get_solarposition example_system (frame_index example_frame) []
            = (Inr ?sp, [''get_solarposition''])"
      by (simp add: defs)
    show "getitem ?sp ''zenith'' = Inr [(0, Fin 30), (day, Fin 30)]"
      by (simp add: defs)
    show "getitem ?sp ''azimuth'' = Inr [(0, Fin 180), (day, Fin 180)]"
      by (simp add: defs)
    show "getitem example_frame ''DNI'' = Inr [(0, Fin 300), (day, Fin 300)]"
      by (simp add: defs)
    show "getitem example_frame ''GHI'' = Inr [(0, Fin 400), (day, Fin 400)]"
      by (simp add: defs)
    show "getitem example_frame ''DHI'' = Inr [(0, Fin 100), (day, Fin 100)]"
      by (simp add: defs)
    show "get_poa_global example_system [(0, Fin 30), (day, Fin 30)] [(0, Fin 180), (day, Fin 180)]
            [(0, Fin 300), (day, Fin 300)] [(0, Fin 400), (day, Fin 400)]
            [(0, Fin 100), (day, Fin 100)] [''get_solarposition'']
            = (Inr ?ti, [''get_solarposition'', ''get_poa_global''])"
      by (simp add: defs)
    show "get_aoi example_system [(0, Fin 30), (day, Fin 30)] [(0, Fin 180), (day, Fin 180)]
            [''get_solarposition'', ''get_poa_global'']
            = (Inr [(0, Fin 30), (day, Fin 30)], [''get_solarposition'', ''get_poa_global'', ''get_aoi''])"
      by (simp add: defs)
    show "get_airmass example_system ?sp ''kastenyoung1989''
            [''get_solarposition'', ''get_poa_global'', ''get_aoi'']
            = (Inr ?am, [''get_solarposition'', ''get_poa_global'', ''get_aoi'', ''get_airmass''])"
      by (simp add: defs)
    show "getitem ?am ''airmass_absolute'' = Inr [(0, Fin 2), (day, Fin 2)]"
      by (simp add: defs)
    show "getitem ?ti ''poa_direct'' = Inr [(0, Fin 300), (day, Fin 300)]"
      by (simp add: defs)
    show "getitem ?ti ''poa_diffuse'' = Inr [(0, Fin 100), (day, Fin 100)]"
      by (simp add: defs)
    show "sapm_effective_poa_global example_pvlib [(0, Fin 300), (day, Fin 300)]
            [(0, Fin 100), (day, Fin 100)] [(0, Fin 2), (day, Fin 2)] [(0, Fin 30), (day, Fin 30)]
            (module example_system) 1
            [''get_solarposition'', ''get_poa_global'', ''get_aoi'', ''get_airmass'']
            = (Inr [(0, Fin 300), (day, Fin 300)],
               [''get_solarposition'', ''get_poa_global'', ''get_aoi'', ''get_airmass'',
                ''sapm_effective_poa_global''])"
      by (simp add: defs)
    show "getitem ?ti ''poa_global'' = Inr [(0, Fin 400), (day, Fin 400)]"
      by (simp add: defs)
    show "getitem example_frame ''Wind Speed'' = Inr [(0, Fin 5), (day, Fin 5)]"
      by (simp add: defs)
    show "getitem example_frame ''Temperature'' = Inr [(0, Fin 20), (day, Fin 20)]"
      by (simp add: defs)
    show "sapm_celltemp example_system [(0, Fin 400), (day, Fin 400)] [(0, Fin 5), (day, Fin 5)]
            [(0, Fin 20), (day, Fin 20)]
            [''get_solarposition'', ''get_poa_global'', ''get_aoi'', ''get_airmass'',
             ''sapm_effective_poa_global'']
            = (Inr ?tc, [''get_solarposition'', ''get_poa_global'', ''get_aoi'', ''get_airmass'',
                ''sapm_effective_poa_global'', ''sapm_celltemp''])"
      by (simp add: defs)
    show "getitem ?tc ''temp_cell'' = Inr [(0, Fin 20), (day, Fin 20)]"
      by (simp add: defs)
  qed
  then show ?thesis by (simp add: example_system_def logged_def)
qed

section \<open>Properties of the PVWatts module model\<close>

text \<open>
  Claim C2.  With only one of \<open>T_cell\<close> and \<open>gamma_pdc\<close> supplied, \<open>pvwatts_dc_power\<close>
  returns what it returns with both omitted: the temperature correction needs both,
  and a partial specification is ignored, with no error (the function has no failing
  branch at all).
\<close>

theorem pvwatts_dc_power_partial_ignored:
  "pvwatts_dc_power poa_global P_stc (Some tc) G_stc T_stc None
     = pvwatts_dc_power poa_global P_stc None G_stc T_stc None
   \<and> pvwatts_dc_power poa_global P_stc None G_stc T_stc (Some g)
     = pvwatts_dc_power poa_global P_stc None G_stc T_stc None"
  by (simp add: pvwatts_dc_power_def)

lemma pvwatts_dc_power_base:
  "div_scalar (scalar_mul P_stc poa_global) G_stc = map (\<lambda>(t, x). (t, P_stc * x / G_stc)) poa_global"
  by (simp add: div_scalar_def scalar_mul_def case_prod_beta comp_def)

lemma temperature_factor_rows:
  "scalar_add (Fin 1) (scalar_mul g (sub_scalar tc T_stc))
     = map (\<lambda>(t, c). (t, Fin 1 + g * (c - T_stc))) tc"
  by (simp add: scalar_add_def scalar_mul_def sub_scalar_def case_prod_beta comp_def)

lemma index_map_rows: "index (map (\<lambda>(t, x). (t, h x)) s) = index s"
  by (simp add: index_def case_prod_beta comp_def)

lemma align_op_same_index:
  "index a = index b \<Longrightarrow>
   align_op f (map (\<lambda>(t, x). (t, h x)) a) (map (\<lambda>(t, c). (t, h' c)) b)
     = map (\<lambda>((t, x), (_, c)). (t, f (h x) (h' c))) (zip a b)"
  by (simp add: align_op_def index_map_rows zip_map_map case_prod_beta)

text \<open>
  Claim C3.  Without both \<open>T_cell\<close> and \<open>gamma_pdc\<close> the result is
  \<open>P_stc * poa_global / G_stc\<close>, sample by sample; with both it is that series times
  the series \<open>1 + gamma_pdc * (T_cell - T_stc)\<close>, the product taken label by label (row by
  row when \<open>T_cell\<close> has the index of \<open>poa_global\<close>).  Nothing is clamped or validated:
  a negative irradiance gives a negative power, and so does a negative temperature
  factor.
\<close>

theorem pvwatts_dc_power_formula:
  "pvwatts_dc_power poa_global P_stc None G_stc T_stc gamma_pdc
     = map (\<lambda>(t, x). (t, P_stc * x / G_stc)) poa_global
   \<and> pvwatts_dc_power poa_global P_stc T_cell G_stc T_stc None
     = map (\<lambda>(t, x). (t, P_stc * x / G_stc)) poa_global
   \<and> pvwatts_dc_power poa_global P_stc (Some tc) G_stc T_stc (Some g)
     = series_mul (map (\<lambda>(t, x). (t, P_stc * x / G_stc)) poa_global)
         (map (\<lambda>(t, c). (t, Fin 1 + g * (c - T_stc))) tc)
   \<and> (index poa_global = index tc \<longrightarrow>
        pvwatts_dc_power poa_global P_stc (Some tc) G_stc T_stc (Some g)
          = map (\<lambda>((t, x), (_, c)). (t, P_stc * x / G_stc * (Fin 1 + g * (c - T_stc))))
              (zip poa_global tc))
   \<and> pvwatts_dc_power [(0, Fin (- 1000))] (Fin 300) None (Fin 1000) (Fin 25) None
     = [(0, Fin (- 300))]
   \<and> pvwatts_dc_power [(0, Fin 1000)] (Fin 300) (Some [(0, Fin 35)]) (Fin 1000) (Fin 25)
       (Some (Fin (- 1)))
     = [(0, Fin (- 2700))]"
proof (intro conjI impI)
  show "pvwatts_dc_power poa_global P_stc None G_stc T_stc gamma_pdc
     = map (\<lambda>(t, x). (t, P_stc * x / G_stc)) poa_global"
    by (simp add: pvwatts_dc_power_def pvwatts_dc_power_base)
  show "pvwatts_dc_power poa_global P_stc T_cell G_stc T_stc None
     = map (\<lambda>(t, x). (t, P_stc * x / G_stc)) poa_global"
    by (simp add: pvwatts_dc_power_def pvwatts_dc_power_base Let_def split: option.splits)
  show "pvwatts_dc_power poa_global P_stc (Some tc) G_stc T_stc (Some g)
     = series_mul (map (\<lambda>(t, x). (t, P_stc * x / G_stc)) poa_global)
         (map (\<lambda>(t, c). (t, Fin 1 + g * (c - T_stc))) tc)"
    by (simp add: pvwatts_dc_power_def pvwatts_dc_power_base temperature_factor_rows)
  show "pvwatts_dc_power poa_global P_stc (Some tc) G_stc T_stc (Some g)
          = map (\<lambda>((t, x), (_, c)). (t, P_stc * x / G_stc * (Fin 1 + g * (c - T_stc))))
              (zip poa_global tc)"
    if "index poa_global = index tc"
    using that
    by (simp add: pvwatts_dc_power_def pvwatts_dc_power_base temperature_factor_rows
        series_mul_def align_op_same_index)
  show "pvwatts_dc_power [(0, Fin (- 1000))] (Fin 300) None (Fin 1000) (Fin 25) None
     = [(0, Fin (- 300))]"
    by (simp add: pvwatts_dc_power_def scalar_mul_def div_scalar_def float_eval)
  show "pvwatts_dc_power [(0, Fin 1000)] (Fin 300) (Some [(0, Fin 35)]) (Fin 1000) (Fin 25)
       (Some (Fin (- 1)))
     = [(0, Fin (- 2700))]"
    by (simp add: pvwatts_dc_power_def scalar_mul_def div_scalar_def scalar_add_def sub_scalar_def
        series_mul_def align_op_def index_def float_eval)
qed

theorem pvwatts_dc_power_formula_witness:
  "index [(0, Fin 1000)] = index [(0, Fin 35)]
   \<and> pvwatts_dc_power [(0, Fin 1000)] (Fin 300) (Some [(0, Fin 35)]) (Fin 1000) (Fin 25)
       (Some (Fin (- 1)))
     = [(0, Fin 300 * Fin 1000 / Fin 1000 * (Fin 1 + Fin (- 1) * (Fin 35 - Fin 25)))]"
proof -
  have a: "index [(0, Fin 1000)] = index [(0, Fin 35)]"
    by (simp add: index_def)
  have "pvwatts_dc_power [(0, Fin 1000)] (Fin 300) (Some [(0, Fin 35)]) (Fin 1000) (Fin 25)
          (Some (Fin (- 1)))
        = map (\<lambda>((t, x), (_, c)). (t, Fin 300 * x / Fin 1000 * (Fin 1 + Fin (- 1) * (c - Fin 25))))
            (zip [(0, Fin 1000)] [(0 :: timestamp, Fin 35)])"
    using pvwatts_dc_power_formula [of "[(0, Fin 1000)]" "Fin 300" "Fin 1000" "Fin 25" None None
          "[(0, Fin 35)]" "Fin (- 1)"] a
    by blast
  then have "pvwatts_dc_power [(0, Fin 1000)] (Fin 300) (Some [(0, Fin 35)]) (Fin 1000) (Fin 25)
          (Some (Fin (- 1)))
        = [(0, Fin 300 * Fin 1000 / Fin 1000 * (Fin 1 + Fin (- 1) * (Fin 35 - Fin 25)))]"
    by simp
  with a show ?thesis by (rule conjI)
qed

text \<open>
  Claim C7, as stated, fails in floating point: with \<open>P_stc = 100\<close> and the default
  \<open>G_stc = 1000\<close>, an irradiance of 1 and the factor \<open>k = 3\<close>, the power of the scaled
  irradiance is \<open>300 / 1000 = 0.3\<close>, while three times the power of the irradiance is
  \<open>3 * 0.1 = 0.30000000000000004\<close>.
\<close>

theorem pvwatts_linearity_counterexample:
  "pvwatts_dc_power (scalar_mul (Fin 3) [(0, Fin 1)]) (Fin 100) None (Fin 1000) (Fin 25) None
     \<noteq> scalar_mul (Fin 3) (pvwatts_dc_power [(0, Fin 1)] (Fin 100) None (Fin 1000) (Fin 25) None)"
proof -
  have l: "pvwatts_dc_power (scalar_mul (Fin 3) [(0, Fin 1)]) (Fin 100) None (Fin 1000) (Fin 25) None
             = [(0, Fin (5404319552844595 / 18014398509481984))]"
    by (simp add: pvwatts_dc_power_def scalar_mul_def div_scalar_def float_eval
        round64_three_tenths)
  have r: "scalar_mul (Fin 3) (pvwatts_dc_power [(0, Fin 1)] (Fin 100) None (Fin 1000) (Fin 25) None)
             = [(0, Fin (1351079888211149 / 4503599627370496))]"
    by (simp add: pvwatts_dc_power_def scalar_mul_def div_scalar_def float_eval
        round64_tenth round64_thrice_tenth)
  show ?thesis unfolding l r by simp
qed

text \<open>
  Claim C7, as amended.  With \<open>T_cell\<close> and \<open>gamma_pdc\<close> omitted, finite non-zero \<open>k\<close>,
  \<open>P_stc\<close> and \<open>G_stc\<close>, and irradiance samples that are zeros or finite, scaling the
  irradiance by \<open>k\<close> scales the power by \<open>k\<close> whenever, at every sample, the products
  \<open>k * poa\<close>, \<open>P_stc * (k * poa)\<close> and \<open>P_stc * poa\<close> and the quotient
  \<open>P_stc * poa / G_stc\<close> are computed without rounding.  (Otherwise the two sides are
  two roundings of one exact value.)
\<close>

theorem pvwatts_linear_when_exact:
  assumes "k \<noteq> 0" and "p \<noteq> 0" and "g \<noteq> 0"
    and "\<forall>(t, x) \<in> set poa_global. exact_sample k p g x"
  shows "pvwatts_dc_power (scalar_mul (Fin k) poa_global) (Fin p) None (Fin g) T_stc None
           = scalar_mul (Fin k) (pvwatts_dc_power poa_global (Fin p) None (Fin g) T_stc None)"
proof -
  have sample: "Fin p * (Fin k * x) / Fin g = Fin k * (Fin p * x / Fin g)"
    if "exact_sample k p g x" for x
  proof (cases x)
    case (Zero s)
    then show ?thesis using assms(1-3) by (auto simp: times_f64_def divide_f64_def)
  next
    case (Fin a)
    from that Fin have e1: "round64 (k * a) = Fin (k * a)"
      and e2: "round64 (p * (k * a)) = Fin (p * (k * a))"
      and e3: "round64 (p * a) = Fin (p * a)"
      and e4: "round64 (p * a / g) = Fin (p * a / g)"
      by simp_all
    have "fdiv (fmul (Fin p) (fmul (Fin k) (Fin a))) (Fin g) = round64 (p * (k * a) / g)"
      by (simp only: fmul.simps fdiv.simps e1 e2)
    also have "p * (k * a) / g = k * (p * a / g)"
      by simp
    also have "round64 (k * (p * a / g)) = fmul (Fin k) (fdiv (fmul (Fin p) (Fin a)) (Fin g))"
      by (simp only: fmul.simps fdiv.simps e3 e4)
    finally show ?thesis
      by (simp only: Fin times_f64_def divide_f64_def)
  qed (use that in simp_all)
  have "map (\<lambda>(t, x). (t, Fin p * (Fin k * x) / Fin g)) poa_global
          = map (\<lambda>(t, x). (t, Fin k * (Fin p * x / Fin g))) poa_global"
    using assms(4) by (auto simp: sample)
  then show ?thesis
    by (simp add: pvwatts_dc_power_def scalar_mul_def div_scalar_def case_prod_beta comp_def)
qed

theorem pvwatts_linear_when_exact_witness:
  "(2::rat) \<noteq> 0 \<and> (300::rat) \<noteq> 0 \<and> (1000::rat) \<noteq> 0
   \<and> exact_sample 2 300 1000 (Fin 1000) \<and> exact_sample 2 300 1000 (Zero False)
   \<and> pvwatts_dc_power (scalar_mul (Fin 2) [(0, Fin 1000), (hour, Zero False)]) (Fin 300) None
         (Fin 1000) (Fin 25) None
       = scalar_mul (Fin 2)
           (pvwatts_dc_power [(0, Fin 1000), (hour, Zero False)] (Fin 300) None (Fin 1000) (Fin 25) None)"
proof -
  have e: "\<forall>(t, x) \<in> set [(0, Fin 1000), (hour, Zero False)]. exact_sample 2 300 1000 x"
    by (simp add: float_eval)
  then have e': "exact_sample 2 300 1000 (Fin 1000)" "exact_sample 2 300 1000 (Zero False)"
    by simp_all
  from pvwatts_linear_when_exact [of 2 300 1000 "[(0, Fin 1000), (hour, Zero False)]" "Fin 25"] e
  have "pvwatts_dc_power (scalar_mul (Fin 2) [(0, Fin 1000), (hour, Zero False)]) (Fin 300) None
         (Fin 1000) (Fin 25) None
       = scalar_mul (Fin 2)
           (pvwatts_dc_power [(0, Fin 1000), (hour, Zero False)] (Fin 300) None (Fin 1000) (Fin 25) None)"
    by simp
  with e' show ?thesis by simp
qed

lemma finite_minus_self: "is_finite x \<Longrightarrow> x - x = Zero False"
  by (cases x) (simp_all add: minus_f64_def round64_def)

lemma finite_times_zero: "is_finite x \<Longrightarrow> \<exists>s. x * Zero False = Zero s"
  by (cases x) (simp_all add: times_f64_def)

lemma pvwatts_dc_power_rows:
  "index poa_global = index tc \<Longrightarrow>
   pvwatts_dc_power poa_global P_stc (Some tc) G_stc T_stc (Some g)
     = map (\<lambda>((t, x), (_, c)). (t, P_stc * x / G_stc * (Fin 1 + g * (c - T_stc))))
         (zip poa_global tc)"
  by (simp add: pvwatts_dc_power_def pvwatts_dc_power_base temperature_factor_rows
      series_mul_def align_op_same_index)

lemma index_constant_rows: "index (map (\<lambda>(t, x). (t, c)) s) = index s"
  by (simp add: index_def case_prod_beta comp_def)

lemma one_plus_zero: "Fin 1 + Zero s = Fin 1"
  by (simp add: plus_f64_def)

text \<open>
  Claim C8, as stated, fails in floating point: with \<open>P_stc = 0.1\<close> and
  \<open>G_stc = 3\<close>, at an irradiance of 3 the result is \<open>0.1 * 3 / 3 = 0.10000000000000002\<close>,
  not \<open>P_stc\<close>.
\<close>

theorem pvwatts_at_reference_counterexample:
  "pvwatts_dc_power [(0, Fin 3)] (Fin (3602879701896397 / 36028797018963968)) None (Fin 3)
     (Fin 25) None
   = [(0, Fin (7205759403792795 / 72057594037927936))]
   \<and> Fin (7205759403792795 / 72057594037927936) \<noteq> Fin (3602879701896397 / 36028797018963968)"
  by (simp add: pvwatts_dc_power_def scalar_mul_def div_scalar_def float_eval
      round64_thrice_tenth round64_third_of_that)

text \<open>
  Claim C8, as amended.  Let \<open>P_stc\<close> and \<open>G_stc\<close> be finite non-zero floats whose product
  \<open>P_stc * G_stc\<close> is computed without rounding.  When \<open>poa_global\<close> equals \<open>G_stc\<close> at
  every sample and either a temperature argument is omitted, or \<open>T_cell\<close> equals \<open>T_stc\<close>
  at every sample of \<open>poa_global\<close> with \<open>T_stc\<close> and \<open>gamma_pdc\<close> finite,
  \<open>pvwatts_dc_power\<close> returns exactly \<open>P_stc\<close> at every sample.
\<close>

theorem pvwatts_at_reference_when_exact:
  assumes "round64 p = Fin p" and "g \<noteq> 0" and "round64 (p * g) = Fin (p * g)"
    and "\<forall>(t, x) \<in> set poa_global. x = Fin g"
  shows "pvwatts_dc_power poa_global (Fin p) None (Fin g) T_stc gamma_pdc
           = map (\<lambda>(t, x). (t, Fin p)) poa_global
    \<and> pvwatts_dc_power poa_global (Fin p) T_cell (Fin g) T_stc None
           = map (\<lambda>(t, x). (t, Fin p)) poa_global
    \<and> (is_finite T_stc \<and> is_finite gamma \<longrightarrow>
         pvwatts_dc_power poa_global (Fin p) (Some (map (\<lambda>(t, x). (t, T_stc)) poa_global)) (Fin g)
           T_stc (Some gamma)
           = map (\<lambda>(t, x). (t, Fin p)) poa_global)"
proof -
  have base: "Fin p * Fin g / Fin g = Fin p"
    using assms(1-3) by (simp add: times_f64_def divide_f64_def)
  have rows: "map (\<lambda>(t, x). (t, Fin p * x / Fin g)) poa_global = map (\<lambda>(t, x). (t, Fin p)) poa_global"
    using assms(4) by (auto simp: base)
  have one: "Fin p * Fin 1 = Fin p"
    using assms(1) by (simp add: times_f64_def)
  have factor: "Fin 1 + gamma * (T_stc - T_stc) = Fin 1" if "is_finite T_stc" "is_finite gamma"
    using finite_times_zero [OF that(2)] by (auto simp: finite_minus_self [OF that(1)] one_plus_zero)
  have corrected: "pvwatts_dc_power poa_global (Fin p) (Some (map (\<lambda>(t, x). (t, T_stc)) poa_global))
           (Fin g) T_stc (Some gamma) = map (\<lambda>(t, x). (t, Fin p)) poa_global"
    if "is_finite T_stc" "is_finite gamma"
  proof -
    have "pvwatts_dc_power poa_global (Fin p) (Some (map (\<lambda>(t, x). (t, T_stc)) poa_global))
           (Fin g) T_stc (Some gamma)
          = map (\<lambda>((t, x), (_, c)). (t, Fin p * x / Fin g * (Fin 1 + gamma * (c - T_stc))))
              (zip poa_global (map (\<lambda>(t, x). (t, T_stc)) poa_global))"
      by (rule pvwatts_dc_power_rows) (simp add: index_constant_rows)
    also have "\<dots> = map (\<lambda>(t, x). (t, Fin p * x / Fin g * (Fin 1 + gamma * (T_stc - T_stc)))) poa_global"
      by (induction poa_global) (auto simp: case_prod_beta)
    also have "\<dots> = map (\<lambda>(t, x). (t, Fin p)) poa_global"
      using assms(4) by (auto simp: factor [OF that] base one)
    finally show ?thesis .
  qed
  have "pvwatts_dc_power poa_global (Fin p) None (Fin g) T_stc gamma_pdc
           = map (\<lambda>(t, x). (t, Fin p)) poa_global"
    by (simp add: pvwatts_dc_power_def pvwatts_dc_power_base rows)
  moreover have "pvwatts_dc_power poa_global (Fin p) T_cell (Fin g) T_stc None
           = map (\<lambda>(t, x). (t, Fin p)) poa_global"
    by (simp add: pvwatts_dc_power_def pvwatts_dc_power_base rows Let_def split: option.splits)
  ultimately show ?thesis
    using corrected by blast
qed

theorem pvwatts_at_reference_when_exact_witness:
  "round64 300 = Fin 300 \<and> (1000::rat) \<noteq> 0 \<and> round64 (300 * 1000) = Fin (300 * 1000)
   \<and> is_finite (Fin 25) \<and> is_finite (Fin (- 1))
   \<and> pvwatts_dc_power [(0, Fin 1000), (hour, Fin 1000)] (Fin 300) None (Fin 1000) (Fin 25) None
       = [(0, Fin 300), (hour, Fin 300)]
   \<and> pvwatts_dc_power [(0, Fin 1000), (hour, Fin 1000)] (Fin 300)
         (Some [(0, Fin 25), (hour, Fin 25)]) (Fin 1000) (Fin 25) (Some (Fin (- 1)))
       = [(0, Fin 300), (hour, Fin 300)]"
proof -
  have a: "round64 300 = Fin 300" and b: "round64 (300 * 1000) = Fin (300 * 1000)"
    by (simp_all add: float_eval)
  have c: "\<forall>(t, x) \<in> set [(0, Fin 1000), (hour, Fin 1000)]. x = Fin 1000"
    by simp
  from pvwatts_at_reference_when_exact [OF a _ b c, of "Fin 25" None None "Fin (- 1)"] a b
  show ?thesis by simp
qed

end
